theory Spec2Isabelle
  imports Complex_Main
begin

section \<open>Strings\<close>

text \<open>
  A JavaScript string is modelled as a \<^typ>\<open>string\<close> whose characters are the code units
  0..255 (the Latin-1 range); \<open>length\<close> counts code units as \<open>String.length\<close> does.
  The character classes below are the ones the regular expressions of the source use,
  restricted to that range.
\<close>

definition code :: "char \<Rightarrow> nat" where
  "code c = of_char c"

definition is_az :: "char \<Rightarrow> bool" where
  \<comment> \<open>the class \<open>[a-z]\<close>\<close>
  "is_az c = (97 \<le> code c \<and> code c \<le> 122)"

definition is_AZ :: "char \<Rightarrow> bool" where
  \<comment> \<open>the class \<open>[A-Z]\<close>\<close>
  "is_AZ c = (65 \<le> code c \<and> code c \<le> 90)"

definition is_digit :: "char \<Rightarrow> bool" where
  \<comment> \<open>the class \<open>[0-9]\<close>\<close>
  "is_digit c = (48 \<le> code c \<and> code c \<le> 57)"

definition is_space :: "char \<Rightarrow> bool" where
  \<comment> \<open>the class \<open>\s\<close>, which is also what \<open>trim\<close> removes: tab, line feed, vertical tab,
      form feed, carriage return, space, no-break space\<close>
  "is_space c = (code c \<in> {9, 10, 11, 12, 13, 32, 160})"

definition toLowerCase_char :: "char \<Rightarrow> char" where
  \<comment> \<open>\<open>A-Z\<close> and the Latin-1 capitals (all of 192..222 but the multiplication sign)
      move up by 32; every other code unit is its own lower case\<close>
  "toLowerCase_char c =
     (if is_AZ c \<or> (192 \<le> code c \<and> code c \<le> 222 \<and> code c \<noteq> 215)
      then char_of (code c + 32) else c)"

definition toLowerCase :: "string \<Rightarrow> string" where
  "toLowerCase s = map toLowerCase_char s"

definition trim :: "string \<Rightarrow> string" where
  "trim s = rev (dropWhile is_space (rev (dropWhile is_space s)))"

section \<open>The definition normalizer (lib/dictionaryApi.ts)\<close>

definition strip_non_az :: "string \<Rightarrow> string" where
  \<comment> \<open>\<open>.replace(/[^a-z]/g, '')\<close>\<close>
  "strip_non_az s = filter is_az s"

definition test_az_plus :: "string \<Rightarrow> bool" where
  \<comment> \<open>\<open>/^[a-z]+$/.test(s)\<close>\<close>
  "test_az_plus s = (s \<noteq> [] \<and> list_all is_az s)"

definition normalizeWord :: "string \<Rightarrow> string option" where
  "normalizeWord word =
     (let normalized = strip_non_az (trim (toLowerCase word))
      in if length normalized < 2 \<or> \<not> test_az_plus normalized then None
         else Some normalized)"

section \<open>The definition lookup and its cache (lib/dictionaryApi.ts)\<close>

record DefinitionData =
  d_word :: string
  d_phonetic :: "string option"
  d_definition :: string
  d_example :: "string option"
  d_error :: "string option"

text \<open>
  A thrown value is an instance of \<open>Error\<close> with its message, or something else.
\<close>

datatype js_thrown = ErrorObject string | NonError

text \<open>
  The body of a successful answer, typed as the lookup service documents it: an array of
  entries with nested phonetics, meanings and definitions, every property optional.
  \<open>BodyNull\<close> is the JSON value \<open>null\<close>, on which \<open>data[0]\<close> throws a \<open>TypeError\<close>.
\<close>

datatype defn = Defn (defn_definition: "string option") (defn_example: "string option")

datatype meaning = Meaning (m_definitions: "defn list")

datatype entry =
  Entry (e_phonetic: "string option") (e_phonetics: "string option list")
        (e_meanings: "meaning list")

datatype body = BodyNull | BodyEntries "entry list"

datatype json_outcome = JsonRejected js_thrown | JsonResolved body

text \<open>
  What \<open>await fetch(url)\<close> gives: a rejection, or a response with its status and what
  \<open>await response.json()\<close> gives.
\<close>

datatype fetch_outcome = FetchRejected js_thrown | FetchResolved nat json_outcome

definition response_ok :: "nat \<Rightarrow> bool" where
  \<comment> \<open>\<open>response.ok\<close>: the status is in the range 200..299\<close>
  "response_ok status = (200 \<le> status \<and> status \<le> 299)"

definition truthy :: "string option \<Rightarrow> bool" where
  \<comment> \<open>an absent property and the empty string are falsy\<close>
  "truthy v = (case v of None \<Rightarrow> False | Some s \<Rightarrow> s \<noteq> [])"

definition or_else :: "string option \<Rightarrow> string option \<Rightarrow> string option" where
  \<comment> \<open>\<open>a || b\<close>\<close>
  "or_else a b = (if truthy a then a else b)"

definition or_default :: "string option \<Rightarrow> string \<Rightarrow> string" where
  \<comment> \<open>\<open>a || 'text'\<close>\<close>
  "or_default a b = (case a of None \<Rightarrow> b | Some s \<Rightarrow> if s = [] then b else s)"

definition first_of :: "'a list \<Rightarrow> 'a option" where
  \<comment> \<open>\<open>xs?.[0]\<close>\<close>
  "first_of xs = (case xs of [] \<Rightarrow> None | x # _ \<Rightarrow> Some x)"

definition null_read_message :: string where
  "null_read_message = ''Cannot read properties of null (reading '' @ [CHR 0x27] @ ''0'' @ [CHR 0x27] @ '')''"

definition quoted :: "string \<Rightarrow> string" where
  "quoted s = [CHR 0x27] @ s @ [CHR 0x27]"

definition build_result :: "string \<Rightarrow> entry option \<Rightarrow> DefinitionData" where
  \<comment> \<open>the lines from \<open>firstEntry\<close> to \<open>result\<close>\<close>
  "build_result normalizedWord firstEntry =
     (let firstMeaning = (case firstEntry of None \<Rightarrow> None | Some e \<Rightarrow> first_of (e_meanings e));
          firstDefinition =
            (case firstMeaning of None \<Rightarrow> None | Some m \<Rightarrow> first_of (m_definitions m));
          phonetic =
            or_else
              (or_else (case firstEntry of None \<Rightarrow> None | Some e \<Rightarrow> e_phonetic e)
                 (case firstEntry of None \<Rightarrow> None
                  | Some e \<Rightarrow> (case find truthy (e_phonetics e) of None \<Rightarrow> None | Some t \<Rightarrow> t)))
              (Some []);
          example =
            or_else (case firstDefinition of None \<Rightarrow> None | Some d \<Rightarrow> defn_example d) None;
          definition_text =
            or_default (case firstDefinition of None \<Rightarrow> None | Some d \<Rightarrow> defn_definition d)
              ''No definition available''
      in \<lparr> d_word = normalizedWord,
           d_phonetic = or_else phonetic None,
           d_definition = definition_text,
           d_example = example,
           d_error = None \<rparr>)"

definition digit_char :: "nat \<Rightarrow> char" where
  "digit_char d = char_of (48 + d)"

function show_nat :: "nat \<Rightarrow> string" where
  "show_nat n = (if n < 10 then [digit_char n] else show_nat (n div 10) @ [digit_char (n mod 10)])"
  by pat_completeness auto
termination
  by (relation "measure id") auto

declare show_nat.simps [simp del]

definition not_found_data :: "string \<Rightarrow> DefinitionData" where
  "not_found_data normalizedWord =
     \<lparr> d_word = normalizedWord, d_phonetic = None,
       d_definition = ''Meaning not available for '' @ quoted normalizedWord,
       d_example = None, d_error = Some ''not_found'' \<rparr>"

definition error_data :: "string \<Rightarrow> js_thrown \<Rightarrow> DefinitionData" where
  \<comment> \<open>the \<open>catch\<close> block\<close>
  "error_data normalizedWord err =
     \<lparr> d_word = normalizedWord, d_phonetic = None,
       d_definition = ''Unable to fetch meaning for '' @ quoted normalizedWord,
       d_example = None,
       d_error = Some (case err of ErrorObject msg \<Rightarrow> msg | NonError \<Rightarrow> ''network_error'') \<rparr>"

text \<open>
  The module state: the cache, and the URLs requested so far (one per call of \<open>fetch\<close>).
\<close>

record dict_state =
  cache :: "string \<rightharpoonup> DefinitionData"
  requests :: "string list"

definition api_url :: "string \<Rightarrow> string" where
  \<comment> \<open>\<open>encodeURIComponent\<close> leaves the letters a-z as they are\<close>
  "api_url normalizedWord = ''https://api.dictionaryapi.dev/api/v2/entries/en/'' @ normalizedWord"

definition fetchDefinition ::
  "string \<Rightarrow> fetch_outcome \<Rightarrow> dict_state \<Rightarrow> (js_thrown + DefinitionData) \<times> dict_state" where
  "fetchDefinition word net st =
     (case normalizeWord word of
        None \<Rightarrow> (Inl (ErrorObject ''Invalid word format''), st)
      | Some normalizedWord \<Rightarrow>
          (case cache st normalizedWord of
             Some cached \<Rightarrow> (Inr cached, st)
           | None \<Rightarrow>
               (let st1 = st\<lparr>requests := requests st @ [api_url normalizedWord]\<rparr>
                in case net of
                     FetchRejected err \<Rightarrow> (Inr (error_data normalizedWord err), st1)
                   | FetchResolved status js \<Rightarrow>
                       if \<not> response_ok status then
                         if status = 404 then
                           (Inr (not_found_data normalizedWord),
                            st1\<lparr>cache := (cache st1)(normalizedWord \<mapsto> not_found_data normalizedWord)\<rparr>)
                         else
                           (Inr (error_data normalizedWord
                                   (ErrorObject (''HTTP error '' @ show_nat status))), st1)
                       else
                         (case js of
                            JsonRejected err \<Rightarrow> (Inr (error_data normalizedWord err), st1)
                          | JsonResolved BodyNull \<Rightarrow>
                              (Inr (error_data normalizedWord (ErrorObject null_read_message)), st1)
                          | JsonResolved (BodyEntries es) \<Rightarrow>
                              (Inr (build_result normalizedWord (first_of es)),
                               st1\<lparr>cache := (cache st1)(normalizedWord \<mapsto>
                                                 build_result normalizedWord (first_of es))\<rparr>)))))"



text \<open>
  The answers of the network that are failures other than "not found": a rejected
  \<open>fetch\<close>, a status outside 200..299 other than 404, a rejected \<open>json()\<close>, and a
  body on which reading the first entry throws.
\<close>

definition lookup_failure :: "fetch_outcome \<Rightarrow> bool" where
  "lookup_failure net =
     (case net of
        FetchRejected err \<Rightarrow> True
      | FetchResolved status js \<Rightarrow>
          if response_ok status
          then (case js of JsonRejected err \<Rightarrow> True | JsonResolved b \<Rightarrow> b = BodyNull)
          else status \<noteq> 404)"

definition network_calls :: "dict_state \<Rightarrow> nat" where
  "network_calls st = length (requests st)"

definition empty_dict :: dict_state where
  "empty_dict = \<lparr> cache = Map.empty, requests = [] \<rparr>"

section \<open>Word geometry (lib/pdfTextExtractor.ts)\<close>

text \<open>
  A JavaScript number is modelled as a real number: the rectangles are compared as the
  source compares them, with exact arithmetic in place of rounded arithmetic.
\<close>

record WordRect =
  word :: string
  rect_x :: real
  rect_y :: real
  width :: real
  height :: real
  centerX :: real
  centerY :: real

text \<open>
  The six-element transform \<open>[a, b, c, d, e, f]\<close> of a text run, with \<open>t0\<close> for
  \<open>transform[0]\<close> and so on; the run itself, whose \<open>str\<close> is absent on an item that
  is not a text run; and the viewport.
\<close>

record transform6 =
  t0 :: real
  t1 :: real
  t2 :: real
  t3 :: real
  t4 :: real
  t5 :: real

record text_item =
  str :: "string option"
  transform :: transform6
  item_width :: real

record viewport =
  vp_width :: real
  vp_height :: real

definition is_word_char :: "char \<Rightarrow> bool" where
  \<comment> \<open>the class \<open>[\w'-]\<close>: letters, digits, underscore, apostrophe and hyphen\<close>
  "is_word_char c =
     (is_az c \<or> is_AZ c \<or> is_digit c \<or> code c = 95 \<or> code c = 39 \<or> code c = 45)"

definition clean :: "string \<Rightarrow> string" where
  \<comment> \<open>\<open>.replace(/[^\w'-]/g, '')\<close>\<close>
  "clean w = filter is_word_char w"

fun split_go :: "bool \<Rightarrow> string \<Rightarrow> string \<Rightarrow> string list" where
  \<comment> \<open>one pass over the string: \<open>in_sep\<close> says that the last character was white
      space, \<open>cur\<close> is the piece being read, reversed\<close>
  "split_go in_sep cur [] = [rev cur]"
| "split_go in_sep cur (c # cs) =
     (if is_space c
      then (if in_sep then split_go True [] cs else rev cur # split_go True [] cs)
      else split_go False (c # cur) cs)"

definition split_ws :: "string \<Rightarrow> string list" where
  \<comment> \<open>\<open>.split(/\s+/)\<close>: the pieces between the runs of white space, the empty pieces
      before a leading run and after a trailing run included\<close>
  "split_ws s = split_go False [] s"

definition textWords_of :: "string \<Rightarrow> string list" where
  \<comment> \<open>\<open>item.str.split(/\s+/).filter((w) => w.trim().length > 0)\<close>\<close>
  "textWords_of s = filter (\<lambda>w. length (trim w) > 0) (split_ws s)"

definition indexOf :: "string \<Rightarrow> string \<Rightarrow> nat \<Rightarrow> nat option" where
  \<comment> \<open>\<open>s.indexOf(w, position)\<close>: the first index at or after the position (clamped to
      the length) where \<open>w\<close> occurs; \<open>None\<close> stands for -1\<close>
  "indexOf s w position =
     find (\<lambda>i. take (length w) (drop i s) = w)
       [min position (length s) ..< Suc (length s) - length w]"

definition make_rect :: "string \<Rightarrow> real \<Rightarrow> real \<Rightarrow> real \<Rightarrow> real \<Rightarrow> WordRect" where
  \<comment> \<open>the object pushed on \<open>words\<close>\<close>
  "make_rect cleanWord x y w h =
     \<lparr> word = cleanWord, rect_x = x, rect_y = y, width = w, height = h,
       centerX = x + w / 2, centerY = y + h / 2 \<rparr>"

fun word_loop ::
  "string \<Rightarrow> real \<Rightarrow> real \<Rightarrow> real \<Rightarrow> real \<Rightarrow> real \<Rightarrow> nat \<Rightarrow> string list \<Rightarrow> WordRect list" where
  \<comment> \<open>the inner loop over \<open>textWords\<close>, from the cursor \<open>charOffset\<close>\<close>
  "word_loop s vh tx ty effectiveHeight charWidth charOffset [] = []"
| "word_loop s vh tx ty effectiveHeight charWidth charOffset (w # ws) =
     (let cleanWord = clean w
      in if length cleanWord = 0
         then word_loop s vh tx ty effectiveHeight charWidth (charOffset + length w + 1) ws
         else (case indexOf s w charOffset of
                 None \<Rightarrow>
                   word_loop s vh tx ty effectiveHeight charWidth (charOffset + length w + 1) ws
               | Some wordIndexInStr \<Rightarrow>
                   (let wordStartX = tx + real wordIndexInStr * charWidth;
                        wordWidth = charWidth * real (length w);
                        x = wordStartX;
                        y = vh - ty - effectiveHeight
                    in make_rect cleanWord x y wordWidth effectiveHeight
                       # word_loop s vh tx ty effectiveHeight charWidth
                           (wordIndexInStr + length w + 1) ws)))"

definition item_words :: "viewport \<Rightarrow> text_item \<Rightarrow> WordRect list" where
  \<comment> \<open>one turn of the outer loop: the rectangles one item adds\<close>
  "item_words vp item =
     (case str item of
        None \<Rightarrow> []
      | Some s \<Rightarrow>
          if trim s = [] then []
          else
            (let scaleY = t3 (transform item);
                 tx = t4 (transform item);
                 ty = t5 (transform item);
                 fontSize = \<bar>scaleY\<bar>;
                 minHeight = 12;
                 effectiveHeight = max fontSize minHeight;
                 textWords = textWords_of s;
                 totalWidth = item_width item;
                 charWidth = (if length s > 0 then totalWidth / real (length s) else 0)
             in word_loop s (vp_height vp) tx ty effectiveHeight charWidth 0 textWords))"

definition extractWordsFromTextContent :: "text_item list option \<Rightarrow> viewport \<Rightarrow> WordRect list" where
  \<comment> \<open>\<open>None\<close> is a text content that is missing or has no \<open>items\<close>; the parameter
      \<open>scale\<close> is only logged\<close>
  "extractWordsFromTextContent textContent vp =
     (case textContent of
        None \<Rightarrow> []
      | Some items \<Rightarrow> filter (\<lambda>w. length (word w) > 0) (concat (map (item_words vp) items)))"

definition contains_point :: "WordRect \<Rightarrow> real \<Rightarrow> real \<Rightarrow> real \<Rightarrow> bool" where
  \<comment> \<open>the condition of the first loop\<close>
  "contains_point w x y threshold =
     (x \<ge> rect_x w - threshold \<and> x \<le> rect_x w + width w + threshold \<and>
      y \<ge> rect_y w - threshold \<and> y \<le> rect_y w + height w + threshold)"

definition center_distance :: "WordRect \<Rightarrow> real \<Rightarrow> real \<Rightarrow> real" where
  "center_distance w x y =
     (let dx = x - centerX w; dy = y - centerY w in sqrt (dx * dx + dy * dy))"

fun nearest_loop ::
  "real \<Rightarrow> real \<Rightarrow> WordRect option \<times> real \<Rightarrow> WordRect list \<Rightarrow> WordRect option \<times> real" where
  \<comment> \<open>the second loop, on the pair \<open>(nearest, minDistance)\<close>\<close>
  "nearest_loop x y (nearest, minDistance) [] = (nearest, minDistance)"
| "nearest_loop x y (nearest, minDistance) (w # ws) =
     (if center_distance w x y < minDistance
      then nearest_loop x y (Some w, center_distance w x y) ws
      else nearest_loop x y (nearest, minDistance) ws)"

definition findWordAtPoint :: "WordRect list \<Rightarrow> real \<Rightarrow> real \<Rightarrow> real \<Rightarrow> WordRect option" where
  "findWordAtPoint words x y threshold =
     (case find (\<lambda>w. contains_point w x y threshold) words of
        Some w \<Rightarrow> Some w
      | None \<Rightarrow> fst (nearest_loop x y (None, threshold * 2) words))"

definition two_rects :: "WordRect list" where
  "two_rects = [make_rect ''a'' 0 0 10 10, make_rect ''b'' 5 0 10 10]"

text \<open>
  The run \<open>hello world\<close> with any transform and width, and the two rectangles the
  extraction computes for it.
\<close>

definition hello_world_item :: "transform6 \<Rightarrow> real \<Rightarrow> text_item" where
  "hello_world_item T W = \<lparr> str = Some ''hello world'', transform = T, item_width = W \<rparr>"

definition hello_rect :: "transform6 \<Rightarrow> real \<Rightarrow> viewport \<Rightarrow> WordRect" where
  "hello_rect T W vp =
     make_rect ''hello'' (t4 T) (vp_height vp - t5 T - max \<bar>t3 T\<bar> 12) (W / 11 * 5) (max \<bar>t3 T\<bar> 12)"

definition world_rect :: "transform6 \<Rightarrow> real \<Rightarrow> viewport \<Rightarrow> WordRect" where
  "world_rect T W vp =
     make_rect ''world'' (t4 T + 6 * (W / 11)) (vp_height vp - t5 T - max \<bar>t3 T\<bar> 12)
       (W / 11 * 5) (max \<bar>t3 T\<bar> 12)"

definition small_T :: transform6 where
  "small_T = \<lparr> t0 = 6, t1 = 0, t2 = 0, t3 = 6, t4 = 72, t5 = 700 \<rparr>"

definition letter_page :: viewport where
  "letter_page = \<lparr> vp_width = 612, vp_height = 792 \<rparr>"







section \<open>The page viewer (the PdfViewer component)\<close>

text \<open>
  The handles of the document service. What a handle does when the viewer calls it is
  part of the handle: whether \<open>cancel\<close>, \<open>cleanup\<close> or \<open>destroy\<close> throws, and
  the task that \<open>page.render\<close> returns.
\<close>

datatype task_handle = Task (task_id: nat) (cancel_throws: bool)

datatype page_handle = Page (page_no: int) (cleanup_throws: bool) (render_task: task_handle)

datatype doc_handle = Doc (doc_pages: int) (destroy_throws: bool)

datatype ext_call =
  Cancel task_handle | Cleanup page_handle | Destroy doc_handle | ClosePopup
  | GetPage int | Render page_handle | GetTextContent page_handle | RenderTextLayer page_handle

text \<open>
  The state of the component: the React state as the setters left it (\<open>error\<close> to
  \<open>noTextForPage\<close>), the refs, what the DOM holds (whether the canvas and the text
  layer are mounted, whether the canvas gives a 2d context, the children of the text
  layer, whether the library has \<open>renderTextLayer\<close>), the pages of the re-renders
  queued with \<open>setTimeout\<close>, and the calls made to the collaborators.

  A setter does not change what the callbacks see: \<open>handlePageChange\<close> and the resize
  effect read \<open>rendered\<close>, \<open>currentPage\<close>, \<open>numPages\<close> and \<open>renderingPage\<close>
  from the closure of the last time React rendered the component. The fields
  \<open>seen_rendered\<close> to \<open>seen_renderingPage\<close> hold these values; a ref is read as
  it is.
\<close>

record viewer =
  error :: "string option"
  rendered :: bool
  currentPage :: int
  numPages :: int
  renderingPage :: bool
  hasTextLayer :: bool
  noTextForPage :: bool
  pdfDocRef :: "doc_handle option"
  pdfPageRef :: "page_handle option"
  renderTaskRef :: "task_handle option"
  renderTokenRef :: nat
  needsRerender :: bool
  canvasRef :: bool
  canvasContext :: bool
  textLayerRef :: bool
  textLayerChildren :: nat
  renderTextLayerApi :: bool
  timers :: "int list"
  calls :: "ext_call list"
  seen_rendered :: bool
  seen_currentPage :: int
  seen_numPages :: int
  seen_renderingPage :: bool

subsection \<open>Statements that may throw\<close>

text \<open>
  A statement takes the state and gives the thrown value, if any, with the state at that
  moment.
\<close>

type_synonym stmt = "viewer \<Rightarrow> js_thrown option \<times> viewer"

definition then_do :: "stmt \<Rightarrow> stmt \<Rightarrow> stmt" where
  \<comment> \<open>\<open>f; g\<close>: \<open>g\<close> does not run when \<open>f\<close> throws\<close>
  "then_do f g v = (case f v of (Some e, v') \<Rightarrow> (Some e, v') | (None, v') \<Rightarrow> g v')"

definition try_ignore :: "stmt \<Rightarrow> stmt" where
  \<comment> \<open>\<open>try { f } catch (e) { }\<close>\<close>
  "try_ignore f v = (None, snd (f v))"

definition assign :: "(viewer \<Rightarrow> viewer) \<Rightarrow> stmt" where
  "assign u v = (None, u v)"

definition call_cancel :: "task_handle \<Rightarrow> stmt" where
  "call_cancel t v =
     (if cancel_throws t then Some NonError else None, v\<lparr>calls := calls v @ [Cancel t]\<rparr>)"

definition call_cleanup :: "page_handle \<Rightarrow> stmt" where
  "call_cleanup p v =
     (if cleanup_throws p then Some NonError else None, v\<lparr>calls := calls v @ [Cleanup p]\<rparr>)"

definition call_destroy :: "doc_handle \<Rightarrow> stmt" where
  "call_destroy d v =
     (if destroy_throws d then Some NonError else None, v\<lparr>calls := calls v @ [Destroy d]\<rparr>)"

definition cleanup :: stmt where
  "cleanup =
     then_do
       (\<lambda>v. case renderTaskRef v of
               None \<Rightarrow> (None, v)
             | Some t \<Rightarrow>
                 then_do (try_ignore (call_cancel t))
                   (assign (\<lambda>v. v\<lparr>renderTaskRef := None\<rparr>)) v)
       (\<lambda>v. case pdfPageRef v of
               None \<Rightarrow> (None, v)
             | Some p \<Rightarrow>
                 then_do (try_ignore (call_cleanup p))
                   (assign (\<lambda>v. v\<lparr>pdfPageRef := None\<rparr>)) v)"

definition cleanupDoc :: stmt where
  "cleanupDoc =
     then_do cleanup
       (\<lambda>v. case pdfDocRef v of
               None \<Rightarrow> (None, v)
             | Some d \<Rightarrow>
                 then_do (try_ignore (call_destroy d))
                   (assign (\<lambda>v. v\<lparr>pdfDocRef := None\<rparr>)) v)"

definition after_cleanup :: "viewer \<Rightarrow> viewer" where
  \<comment> \<open>the state after \<open>cleanup()\<close>\<close>
  "after_cleanup v = snd (cleanup v)"

subsection \<open>renderPage as a coroutine\<close>

text \<open>
  \<open>renderPage\<close> suspends at four \<open>await\<close>s: the page fetch, the raster render task,
  and, inside \<open>renderTextLayer\<close>, the text content and the text layer rendering. A
  suspended call is a frame: its token, its page number and where it waits. Between two
  steps of a frame any other handler may run.
\<close>

datatype render_exn = RenderingCancelledException | OtherException "string option"

datatype render_pc =
  AtGetPage | AtRaster page_handle | AtTextContent page_handle | AtTextLayer page_handle

record render_frame =
  localToken :: nat
  pageNum :: int
  pc :: render_pc

datatype render_status = Suspended render_frame | Returned bool

datatype 'a settled = Fulfilled 'a | Rejected render_exn

text \<open>
  What an \<open>await\<close> gives when the frame resumes: the page; the end of the raster task;
  the number of items of the text content; the number of children the text layer got.
\<close>

datatype await_event =
  GotPage "page_handle settled"
  | RasterDone "unit settled"
  | GotTextContent "nat settled"
  | TextLayerDone "nat settled"

definition allocate_token :: "viewer \<Rightarrow> viewer" where
  \<comment> \<open>Modelled from the spec: the declaration of \<open>localToken\<close>, which \<open>renderPage\<close>
      uses and the source file lacks. The specification has it as "allocate a new render
      generation, the increment of the global counter, and capture it locally".\<close>
  "allocate_token v = v\<lparr>renderTokenRef := renderTokenRef v + 1\<rparr>"

definition finally_block :: "render_frame \<Rightarrow> viewer \<Rightarrow> viewer" where
  "finally_block fr v =
     (if localToken fr = renderTokenRef v then
        (let v1 = v\<lparr>renderingPage := False\<rparr>
         in if needsRerender v1
            then v1\<lparr>needsRerender := False, timers := timers v1 @ [pageNum fr]\<rparr>
            else v1)
      else v)"

definition catch_block :: "render_frame \<Rightarrow> render_exn \<Rightarrow> viewer \<Rightarrow> viewer" where
  "catch_block fr err v =
     (case err of
        RenderingCancelledException \<Rightarrow> v
      | OtherException message \<Rightarrow>
          if localToken fr = renderTokenRef v
          then v\<lparr>error := Some (case message of Some msg \<Rightarrow> msg
                                   | None \<Rightarrow> ''Failed to render page'')\<rparr>
          else v)"

definition on_throw :: "render_frame \<Rightarrow> render_exn \<Rightarrow> viewer \<Rightarrow> render_status \<times> viewer" where
  \<comment> \<open>a throw inside the \<open>try\<close>: the \<open>catch\<close> block returns false, then \<open>finally\<close>\<close>
  "on_throw fr err v = (Returned False, finally_block fr (catch_block fr err v))"

definition stale_check ::
  "render_frame \<Rightarrow> viewer \<Rightarrow> (viewer \<Rightarrow> render_status \<times> viewer) \<Rightarrow> render_status \<times> viewer" where
  \<comment> \<open>\<open>if (localToken !== renderTokenRef.current) return false;\<close> and then the rest\<close>
  "stale_check fr v rest =
     (if localToken fr \<noteq> renderTokenRef v then (Returned False, finally_block fr v)
      else rest v)"

definition no_text :: "viewer \<Rightarrow> viewer" where
  \<comment> \<open>\<open>setNoTextForPage(true); setHasTextLayer(false);\<close>\<close>
  "no_text v = v\<lparr>noTextForPage := True, hasTextLayer := False\<rparr>"

definition after_text_layer :: "render_frame \<Rightarrow> viewer \<Rightarrow> render_status \<times> viewer" where
  \<comment> \<open>from the return of \<open>renderTextLayer\<close> to the end of \<open>renderPage\<close>\<close>
  "after_text_layer fr v =
     stale_check fr v (\<lambda>v. (Returned True, finally_block fr (v\<lparr>rendered := True\<rparr>)))"

definition renderTextLayer_begin ::
  "render_frame \<Rightarrow> page_handle \<Rightarrow> viewer \<Rightarrow> render_status \<times> viewer" where
  \<comment> \<open>\<open>renderTextLayer\<close> up to \<open>await page.getTextContent()\<close>\<close>
  "renderTextLayer_begin fr page v =
     (if \<not> textLayerRef v then after_text_layer fr v
      else (Suspended (fr\<lparr>pc := AtTextContent page\<rparr>),
            v\<lparr>textLayerChildren := 0, calls := calls v @ [GetTextContent page]\<rparr>))"

definition renderPage_start :: "int \<Rightarrow> viewer \<Rightarrow> render_status \<times> viewer" where
  \<comment> \<open>\<open>renderPage\<close> up to \<open>await pdfDoc.getPage(pageNum)\<close>\<close>
  "renderPage_start n v =
     (if \<not> canvasRef v then (Returned False, v)
      else if pdfDocRef v = None then (Returned False, v)
      else if \<not> canvasContext v then (Returned False, v)
      else
        (let v1 = allocate_token v;
             fr = \<lparr> localToken = renderTokenRef v1, pageNum = n, pc = AtGetPage \<rparr>;
             v2 = v1\<lparr>renderingPage := True\<rparr>;
             v3 = after_cleanup v2;
             v4 = (if textLayerRef v3 then v3\<lparr>textLayerChildren := 0\<rparr> else v3)
         in (Suspended fr, v4\<lparr>calls := calls v4 @ [GetPage n]\<rparr>)))"

definition renderPage_resume ::
  "render_frame \<Rightarrow> await_event \<Rightarrow> viewer \<Rightarrow> render_status \<times> viewer" where
  \<comment> \<open>from one \<open>await\<close> to the next, or to the return; an event that is not the one
      the frame waits for leaves everything as it is\<close>
  "renderPage_resume fr ev v =
     (case (pc fr, ev) of
        (AtGetPage, GotPage (Fulfilled page)) \<Rightarrow>
          stale_check fr v
            (\<lambda>v. (Suspended (fr\<lparr>pc := AtRaster page\<rparr>),
                  v\<lparr>pdfPageRef := Some page,
                    renderTaskRef := Some (render_task page),
                    calls := calls v @ [Render page]\<rparr>))
      | (AtGetPage, GotPage (Rejected err)) \<Rightarrow> on_throw fr err v
      | (AtRaster page, RasterDone (Fulfilled u)) \<Rightarrow>
          stale_check fr (v\<lparr>renderTaskRef := None\<rparr>) (renderTextLayer_begin fr page)
      | (AtRaster page, RasterDone (Rejected err)) \<Rightarrow> on_throw fr err v
      | (AtTextContent page, GotTextContent (Fulfilled items)) \<Rightarrow>
          if items = 0 then after_text_layer fr (no_text v)
          else
            (let v1 = v\<lparr>noTextForPage := False\<rparr>
             in if renderTextLayerApi v1
                then (Suspended (fr\<lparr>pc := AtTextLayer page\<rparr>),
                      v1\<lparr>calls := calls v1 @ [RenderTextLayer page]\<rparr>)
                else after_text_layer fr (no_text v1))
      | (AtTextContent page, GotTextContent (Rejected err)) \<Rightarrow> after_text_layer fr (no_text v)
      | (AtTextLayer page, TextLayerDone (Fulfilled children)) \<Rightarrow>
          after_text_layer fr (v\<lparr>textLayerChildren := children, hasTextLayer := True\<rparr>)
      | (AtTextLayer page, TextLayerDone (Rejected err)) \<Rightarrow> after_text_layer fr (no_text v)
      | _ \<Rightarrow> (Suspended fr, v))"

subsection \<open>Navigation, resize, loading and rendering by React\<close>

definition handlePageChange_begin :: "int \<Rightarrow> viewer \<Rightarrow> render_status option \<times> viewer" where
  \<comment> \<open>\<open>handlePageChange\<close> up to \<open>await renderPage(newPage)\<close>; \<open>None\<close> when a guard
      returns. The guards read the values of the closure.\<close>
  "handlePageChange_begin newPage v =
     (if newPage < 1 \<or> newPage > seen_numPages v \<or> newPage = seen_currentPage v then (None, v)
      else if seen_renderingPage v then (None, v)
      else (case renderPage_start newPage (v\<lparr>calls := calls v @ [ClosePopup]\<rparr>) of
              (st, v') \<Rightarrow> (Some st, v')))"

definition handlePageChange_end :: "int \<Rightarrow> bool \<Rightarrow> viewer \<Rightarrow> viewer" where
  \<comment> \<open>\<open>handlePageChange\<close> after \<open>renderPage\<close> returned \<open>success\<close>\<close>
  "handlePageChange_end newPage success v =
     (if success then v\<lparr>currentPage := newPage\<rparr> else v)"

definition handleResize_fire :: "viewer \<Rightarrow> render_status option \<times> viewer" where
  \<comment> \<open>the callback of the debounce timer of \<open>handleResize\<close>; the effect installs the
      listener only when \<open>rendered\<close> holds, and the callback reads the values of the
      closure of that effect\<close>
  "handleResize_fire v =
     (if \<not> seen_rendered v then (None, v)
      else if seen_renderingPage v then (None, v\<lparr>needsRerender := True\<rparr>)
      else (case renderPage_start (seen_currentPage v) v of (st, v') \<Rightarrow> (Some st, v')))"

definition fire_timer :: "viewer \<Rightarrow> render_status option \<times> viewer" where
  \<comment> \<open>the first queued \<open>setTimeout(() => renderPage(pageNum), 0)\<close> runs\<close>
  "fire_timer v =
     (case timers v of
        [] \<Rightarrow> (None, v)
      | n # ns \<Rightarrow> (case renderPage_start n (v\<lparr>timers := ns\<rparr>) of (st, v') \<Rightarrow> (Some st, v')))"

definition loadPdf_begin :: "viewer \<Rightarrow> viewer" where
  \<comment> \<open>\<open>loadPdf\<close> up to its first \<open>await\<close>\<close>
  "loadPdf_begin v = snd (cleanupDoc (v\<lparr>error := None, rendered := False\<rparr>))"

definition loadPdf_failed :: "string \<Rightarrow> viewer \<Rightarrow> viewer" where
  \<comment> \<open>the \<open>catch\<close> block of \<open>loadPdf\<close>\<close>
  "loadPdf_failed message v = v\<lparr>error := Some message\<rparr>"

definition loadPdf_loaded :: "doc_handle \<Rightarrow> viewer \<Rightarrow> render_status \<times> viewer" where
  \<comment> \<open>\<open>loadPdf\<close> from the loaded document to \<open>await renderPage(1)\<close>\<close>
  "loadPdf_loaded pdfDoc v =
     renderPage_start 1 (v\<lparr>pdfDocRef := Some pdfDoc, numPages := doc_pages pdfDoc, currentPage := 1\<rparr>)"

definition react_commit :: "viewer \<Rightarrow> viewer" where
  \<comment> \<open>React renders the component again: the callbacks are made anew and see the state
      as it is now, and the text layer \<open>div\<close> is in the tree only when \<open>hasTextLayer\<close>
      holds\<close>
  "react_commit v =
     v\<lparr>seen_rendered := rendered v, seen_currentPage := currentPage v,
       seen_numPages := numPages v, seen_renderingPage := renderingPage v,
       textLayerRef := hasTextLayer v,
       textLayerChildren := (if hasTextLayer v \<and> textLayerRef v then textLayerChildren v else 0)\<rparr>"

subsection \<open>The component from its mounting on\<close>

text \<open>
  The application mounts the viewer with no file. The first rendering has the initial
  values of the state; the effect then finds no file and runs its first branch, and React
  renders again. From then on \<open>hasTextLayer\<close> is false and the text layer is not in the
  tree. The two parameters are what the browser gives: whether the canvas has a 2d
  context and whether the library has \<open>renderTextLayer\<close>.
\<close>

definition mount_state :: "bool \<Rightarrow> bool \<Rightarrow> viewer" where
  "mount_state ctx api =
     \<lparr> error = None, rendered = False, currentPage = 1, numPages = 0, renderingPage = False,
       hasTextLayer = True, noTextForPage = False, pdfDocRef = None, pdfPageRef = None,
       renderTaskRef = None, renderTokenRef = 0, needsRerender = False, canvasRef = True,
       canvasContext = ctx, textLayerRef = True, textLayerChildren = 0,
       renderTextLayerApi = api, timers = [], calls = [],
       seen_rendered = False, seen_currentPage = 1, seen_numPages = 0,
       seen_renderingPage = False \<rparr>"

definition no_file_effect :: "viewer \<Rightarrow> viewer" where
  \<comment> \<open>the branch \<open>if (!file)\<close> of the effect\<close>
  "no_file_effect v =
     (snd (cleanupDoc v))\<lparr>rendered := False, error := None, currentPage := 1, numPages := 0,
                          hasTextLayer := False, noTextForPage := False\<rparr>"

definition initial_viewer :: "bool \<Rightarrow> bool \<Rightarrow> viewer" where
  "initial_viewer ctx api = react_commit (no_file_effect (mount_state ctx api))"

text \<open>
  The component with its renders in flight. A frame remembers who awaits it:
  \<open>handlePageChange\<close>, which sets the current page when the render returns true, or
  a caller that does nothing with the result.
\<close>

datatype caller = FromNavigation int | FromElsewhere

record app =
  view :: viewer
  frames :: "(render_frame \<times> caller) list"

definition finish :: "caller \<Rightarrow> bool \<Rightarrow> viewer \<Rightarrow> viewer" where
  "finish c success v =
     (case c of FromNavigation n \<Rightarrow> handlePageChange_end n success v | FromElsewhere \<Rightarrow> v)"

definition spawn :: "caller \<Rightarrow> render_status \<times> viewer \<Rightarrow> (render_frame \<times> caller) list \<Rightarrow> app" where
  \<comment> \<open>a call of \<open>renderPage\<close> by \<open>c\<close> has run to its first \<open>await\<close> or returned\<close>
  "spawn c r fs =
     (case r of
        (Suspended fr, v') \<Rightarrow> \<lparr> view = v', frames = fs @ [(fr, c)] \<rparr>
      | (Returned success, v') \<Rightarrow> \<lparr> view = finish c success v', frames = fs \<rparr>)"

text \<open>
  What can happen next, one at a time and in any order: React renders; a file is being
  loaded, fails to load, or is loaded; the user navigates; the debounce timer of a resize
  fires; a queued re-render runs; the \<open>await\<close> of the render in flight at an index
  settles.
\<close>

datatype action =
  Commit | LoadBegin | LoadFailed string | LoadLoaded doc_handle
  | Navigate int | ResizeTimeout | RerenderTimeout | Resume nat await_event

definition apply_action :: "action \<Rightarrow> app \<Rightarrow> app" where
  "apply_action a s =
     (case a of
        Commit \<Rightarrow> s\<lparr>view := react_commit (view s)\<rparr>
      | LoadBegin \<Rightarrow> s\<lparr>view := loadPdf_begin (view s)\<rparr>
      | LoadFailed message \<Rightarrow> s\<lparr>view := loadPdf_failed message (view s)\<rparr>
      | LoadLoaded pdfDoc \<Rightarrow> spawn FromElsewhere (loadPdf_loaded pdfDoc (view s)) (frames s)
      | Navigate n \<Rightarrow>
          (case handlePageChange_begin n (view s) of
             (None, v') \<Rightarrow> s\<lparr>view := v'\<rparr>
           | (Some st, v') \<Rightarrow> spawn (FromNavigation n) (st, v') (frames s))
      | ResizeTimeout \<Rightarrow>
          (case handleResize_fire (view s) of
             (None, v') \<Rightarrow> s\<lparr>view := v'\<rparr>
           | (Some st, v') \<Rightarrow> spawn FromElsewhere (st, v') (frames s))
      | RerenderTimeout \<Rightarrow>
          (case fire_timer (view s) of
             (None, v') \<Rightarrow> s\<lparr>view := v'\<rparr>
           | (Some st, v') \<Rightarrow> spawn FromElsewhere (st, v') (frames s))
      | Resume i ev \<Rightarrow>
          (if i < length (frames s) then
             (case renderPage_resume (fst (frames s ! i)) ev (view s) of
                (Suspended fr', v') \<Rightarrow>
                  \<lparr> view = v', frames = (frames s)[i := (fr', snd (frames s ! i))] \<rparr>
              | (Returned success, v') \<Rightarrow>
                  \<lparr> view = finish (snd (frames s ! i)) success v',
                    frames = take i (frames s) @ drop (Suc i) (frames s) \<rparr>)
           else s))"

definition run :: "action list \<Rightarrow> app \<Rightarrow> app" where
  "run acts s = foldl (\<lambda>s a. apply_action a s) s acts"

definition initial_app :: "bool \<Rightarrow> bool \<Rightarrow> app" where
  "initial_app ctx api = \<lparr> view = initial_viewer ctx api, frames = [] \<rparr>"



definition same_gen :: "viewer \<Rightarrow> viewer \<Rightarrow> bool" where
  "same_gen v v' =
     (renderTokenRef v' = renderTokenRef v \<and> hasTextLayer v' = hasTextLayer v
      \<and> textLayerRef v' = textLayerRef v)"

subsection \<open>Some runs\<close>

text \<open>
  In each run the user picks a document of three pages, its first page is rendered, and
  React renders the component after each step. Then:
  \<^item> the debounce timer of a resize fires and re-renders page 1;
  \<^item> the same, and the user presses Next before React renders the component again;
  \<^item> the user goes to page 2, React renders, and the debounce timer of a resize fires;
  \<^item> the same, and the page fetch fails and React renders;
  \<^item> the same with a page fetch and a raster task that succeed.
\<close>

definition page1 :: page_handle where
  "page1 = Page 1 False (Task 1 False)"

definition page2 :: page_handle where
  "page2 = Page 2 False (Task 2 False)"

definition shown_page1 :: "action list" where
  "shown_page1 =
     [Commit, LoadBegin, Commit, LoadLoaded (Doc 3 False), Commit,
      Resume 0 (GotPage (Fulfilled page1)), Resume 0 (RasterDone (Fulfilled ())), Commit]"

definition resize_render :: "action list" where
  "resize_render = shown_page1 @ [ResizeTimeout]"

definition two_in_flight :: "action list" where
  "two_in_flight = resize_render @ [Navigate 2]"

definition resize_pending :: "action list" where
  "resize_pending = shown_page1 @ [Navigate 2, Commit, ResizeTimeout]"

definition failed_navigation :: "action list" where
  "failed_navigation =
     resize_pending @
     [Resume 0 (GotPage (Rejected (OtherException (Some ''Page 2 could not be read'')))),
      Commit]"

definition resized_navigation :: "action list" where
  "resized_navigation =
     resize_pending @
     [Resume 0 (GotPage (Fulfilled page2)), Resume 0 (RasterDone (Fulfilled ())), Commit]"
section \<open>Properties of the normalizer\<close>

lemma filter_dropWhile_disj:
  assumes "\<And>x. Q x \<Longrightarrow> \<not> P x"
  shows "filter P (dropWhile Q xs) = filter P xs"
  using assms by (induction xs) auto

lemma space_not_az: "is_space c \<Longrightarrow> \<not> is_az c"
  by (auto simp: is_space_def is_az_def)

lemma strip_trim: "strip_non_az (trim s) = strip_non_az s"
proof -
  have "filter is_az (rev (dropWhile is_space (rev (dropWhile is_space s))))
        = rev (filter is_az (dropWhile is_space (rev (dropWhile is_space s))))"
    by (simp add: rev_filter)
  also have "\<dots> = rev (filter is_az (rev (dropWhile is_space s)))"
    by (simp add: filter_dropWhile_disj space_not_az)
  also have "\<dots> = filter is_az (dropWhile is_space s)"
    by (simp add: rev_filter)
  also have "\<dots> = filter is_az s"
    by (simp add: filter_dropWhile_disj space_not_az)
  finally show ?thesis by (simp add: strip_non_az_def trim_def)
qed

lemma code_lt: "code c < 256"
  unfolding code_def by (metis of_char_mod_256 mod_less_divisor zero_less_numeral)

lemma is_az_lower: "is_az (toLowerCase_char c) \<longleftrightarrow> is_az c \<or> is_AZ c"
proof -
  have "code (char_of (code c + 32)) = code c + 32" if "code c + 32 < 256"
    using that by (simp add: code_def)
  then show ?thesis
    by (auto simp: toLowerCase_char_def is_az_def is_AZ_def)
qed

lemma stripped_letters:
  "strip_non_az (trim (toLowerCase w)) =
     map toLowerCase_char (filter (\<lambda>c. is_az c \<or> is_AZ c) w)"
proof -
  have "strip_non_az (trim (toLowerCase w)) = filter is_az (map toLowerCase_char w)"
    unfolding strip_trim by (simp add: strip_non_az_def toLowerCase_def)
  also have "\<dots> = map toLowerCase_char (filter (\<lambda>c. is_az c \<or> is_AZ c) w)"
    by (simp add: filter_map comp_def is_az_lower)
  finally show ?thesis .
qed

text \<open>
  C3. \<open>normalizeWord\<close> lowercases, trims and strips every character that is not a
  lowercase Latin letter; it returns null exactly when the stripped result is shorter than
  two characters or contains a non-letter, and the stripped result otherwise. The
  stripped result is the letters of the input, lowercased. On the four inputs of the
  specification: \<open>Hello!\<close> gives \<open>hello\<close>, \<open>a\<close> and \<open>123\<close> give null, and
  \<open>Don't\<close> between spaces gives \<open>dont\<close>.
\<close>

theorem normalizeWord_spec:
  "(normalizeWord w = None \<longleftrightarrow>
      length (strip_non_az (trim (toLowerCase w))) < 2 \<or>
      (\<exists>c \<in> set (strip_non_az (trim (toLowerCase w))). \<not> is_az c))
   \<and> (normalizeWord w \<noteq> None \<longrightarrow>
        normalizeWord w = Some (strip_non_az (trim (toLowerCase w))))
   \<and> strip_non_az (trim (toLowerCase w)) =
        map toLowerCase_char (filter (\<lambda>c. is_az c \<or> is_AZ c) w)
   \<and> normalizeWord ''Hello!'' = Some ''hello''
   \<and> normalizeWord ''a'' = None
   \<and> normalizeWord ''123'' = None
   \<and> normalizeWord '' Don't '' = Some ''dont''"
proof -
  let ?s = "strip_non_az (trim (toLowerCase w))"
  have all: "list_all is_az ?s"
    by (simp add: strip_non_az_def list_all_iff)
  have a: "normalizeWord w = None \<longleftrightarrow> length ?s < 2 \<or> (\<exists>c \<in> set ?s. \<not> is_az c)"
    using all by (auto simp: normalizeWord_def Let_def test_az_plus_def list_all_iff)
  have b: "normalizeWord w \<noteq> None \<longrightarrow> normalizeWord w = Some ?s"
    by (simp add: normalizeWord_def Let_def)
  have e1: "normalizeWord ''Hello!'' = Some ''hello''" by code_simp
  have e2: "normalizeWord ''a'' = None" by code_simp
  have e3: "normalizeWord ''123'' = None" by code_simp
  have e4: "normalizeWord '' Don't '' = Some ''dont''" by code_simp
  show ?thesis using a b stripped_letters e1 e2 e3 e4 by blast
qed

theorem normalizeWord_spec_witness:
  "normalizeWord ''PDF'' \<noteq> None \<and> normalizeWord ''PDF'' = Some ''pdf''"
proof -
  have s: "strip_non_az (trim (toLowerCase ''PDF'')) = ''pdf''" by code_simp
  have n: "normalizeWord ''PDF'' \<noteq> None" by code_simp
  from normalizeWord_spec [of "''PDF''"] n
  have "normalizeWord ''PDF'' = Some (strip_non_az (trim (toLowerCase ''PDF'')))" by blast
  with n s show ?thesis by simp
qed

section \<open>Properties of the lookup\<close>

lemma fetch_cached:
  "normalizeWord w = Some k \<Longrightarrow> cache st k = Some d \<Longrightarrow> fetchDefinition w net st = (Inr d, st)"
  by (simp add: fetchDefinition_def)

lemma fetch_404:
  "normalizeWord w = Some k \<Longrightarrow> cache st k = None \<Longrightarrow>
   fetchDefinition w (FetchResolved 404 js) st =
     (Inr (not_found_data k),
      st\<lparr>requests := requests st @ [api_url k],
         cache := (cache st)(k \<mapsto> not_found_data k)\<rparr>)"
  by (simp add: fetchDefinition_def Let_def response_ok_def)

lemma fetch_failure:
  "normalizeWord w = Some k \<Longrightarrow> cache st k = None \<Longrightarrow> lookup_failure net \<Longrightarrow>
   \<exists>err. fetchDefinition w net st =
     (Inr (error_data k err), st\<lparr>requests := requests st @ [api_url k]\<rparr>)"
  by (auto simp: fetchDefinition_def Let_def lookup_failure_def
           split: fetch_outcome.splits json_outcome.splits body.splits if_splits)

lemma fetch_miss_calls:
  "normalizeWord w = Some k \<Longrightarrow> cache st k = None \<Longrightarrow>
   network_calls (snd (fetchDefinition w net st)) = Suc (network_calls st)"
  by (auto simp: fetchDefinition_def Let_def network_calls_def
           split: fetch_outcome.splits json_outcome.splits body.splits)

lemma fetch_returns:
  "normalizeWord w = Some k \<Longrightarrow> \<exists>d. fst (fetchDefinition w net st) = Inr d"
  by (auto simp: fetchDefinition_def Let_def
           split: option.splits fetch_outcome.splits json_outcome.splits body.splits)

text \<open>
  C2. A lookup whose canonical key is in the cache returns the cached entry and performs
  no network call, and so does a second lookup. On a miss, a 404 answer is turned into
  the entry with the canonical key as its word, the message \<open>Meaning not available for\<close>
  followed by the quoted key, and the error \<open>not_found\<close>; this entry is stored in the
  cache under the key, one request is made, and a second lookup of the same canonical word
  returns the same entry and leaves the state as it is: one network call in total. Any
  other failure gives the entry with the key as its word, the message
  \<open>Unable to fetch meaning for\<close> followed by the quoted key, and an error marker; the
  cache stays as it was, one request is made, and a second lookup of the same canonical
  word makes a second one: two network calls in total.
\<close>

theorem fetchDefinition_cache:
  assumes "normalizeWord w = Some k" and "normalizeWord w2 = Some k"
  shows "(\<forall>d. cache st k = Some d \<longrightarrow>
            fetchDefinition w net st = (Inr d, st)
            \<and> fetchDefinition w2 net2 (snd (fetchDefinition w net st)) = (Inr d, st))
       \<and> (cache st k = None \<and> (\<exists>js. net = FetchResolved 404 js) \<longrightarrow>
            fst (fetchDefinition w net st) =
              Inr \<lparr> d_word = k, d_phonetic = None,
                    d_definition = ''Meaning not available for '' @ [CHR 0x27] @ k @ [CHR 0x27],
                    d_example = None, d_error = Some ''not_found'' \<rparr>
            \<and> cache (snd (fetchDefinition w net st)) =
                (cache st)(k \<mapsto>
                  \<lparr> d_word = k, d_phonetic = None,
                    d_definition = ''Meaning not available for '' @ [CHR 0x27] @ k @ [CHR 0x27],
                    d_example = None, d_error = Some ''not_found'' \<rparr>)
            \<and> requests (snd (fetchDefinition w net st)) = requests st @ [''https://api.dictionaryapi.dev/api/v2/entries/en/'' @ k]
            \<and> fetchDefinition w2 net2 (snd (fetchDefinition w net st)) =
                (fst (fetchDefinition w net st), snd (fetchDefinition w net st))
            \<and> length (requests (snd (fetchDefinition w2 net2 (snd (fetchDefinition w net st)))))
                = length (requests st) + 1)
       \<and> (cache st k = None \<and> ((\<exists>err. net = FetchRejected err)
              \<or> (\<exists>s js. net = FetchResolved s js \<and> (s < 200 \<or> 299 < s) \<and> s \<noteq> 404)
              \<or> (\<exists>s err. net = FetchResolved s (JsonRejected err) \<and> 200 \<le> s \<and> s \<le> 299)) \<longrightarrow>
            (\<exists>msg. fst (fetchDefinition w net st) =
               Inr \<lparr> d_word = k, d_phonetic = None,
                     d_definition = ''Unable to fetch meaning for '' @ [CHR 0x27] @ k @ [CHR 0x27],
                     d_example = None, d_error = Some msg \<rparr>)
            \<and> cache (snd (fetchDefinition w net st)) = cache st
            \<and> requests (snd (fetchDefinition w net st)) = requests st @ [''https://api.dictionaryapi.dev/api/v2/entries/en/'' @ k]
            \<and> length (requests (snd (fetchDefinition w net st))) = length (requests st) + 1
            \<and> length (requests (snd (fetchDefinition w2 net2 (snd (fetchDefinition w net st)))))
                = length (requests st) + 2)"
proof -
  let ?nf = "\<lparr> d_word = k, d_phonetic = None,
                d_definition = ''Meaning not available for '' @ [CHR 0x27] @ k @ [CHR 0x27],
                d_example = None, d_error = Some ''not_found'' \<rparr>"
  have nf: "not_found_data k = ?nf" by (simp add: not_found_data_def quoted_def)
  have a: "fetchDefinition w net st = (Inr d, st)
           \<and> fetchDefinition w2 net2 (snd (fetchDefinition w net st)) = (Inr d, st)"
    if "cache st k = Some d" for d
    using that assms by (simp add: fetch_cached)
  have b: "fst (fetchDefinition w net st) = Inr ?nf
           \<and> cache (snd (fetchDefinition w net st)) = (cache st)(k \<mapsto> ?nf)
           \<and> requests (snd (fetchDefinition w net st)) = requests st @ [''https://api.dictionaryapi.dev/api/v2/entries/en/'' @ k]
           \<and> fetchDefinition w2 net2 (snd (fetchDefinition w net st)) =
               (fst (fetchDefinition w net st), snd (fetchDefinition w net st))
           \<and> length (requests (snd (fetchDefinition w2 net2 (snd (fetchDefinition w net st)))))
               = length (requests st) + 1"
    if h: "cache st k = None \<and> (\<exists>js. net = FetchResolved 404 js)"
  proof -
    from h obtain js where net: "net = FetchResolved 404 js" by blast
    let ?st1 = "st\<lparr>requests := requests st @ [api_url k],
                    cache := (cache st)(k \<mapsto> not_found_data k)\<rparr>"
    have r1: "fetchDefinition w net st = (Inr (not_found_data k), ?st1)"
      unfolding net using assms(1) h by (simp add: fetch_404)
    have r2: "fetchDefinition w2 net2 ?st1 = (Inr (not_found_data k), ?st1)"
      using assms(2) by (simp add: fetch_cached)
    show ?thesis unfolding r1 using r2 by (simp add: nf api_url_def)
  qed
  have c: "(\<exists>msg. fst (fetchDefinition w net st) =
               Inr \<lparr> d_word = k, d_phonetic = None,
                     d_definition = ''Unable to fetch meaning for '' @ [CHR 0x27] @ k @ [CHR 0x27],
                     d_example = None, d_error = Some msg \<rparr>)
           \<and> cache (snd (fetchDefinition w net st)) = cache st
           \<and> requests (snd (fetchDefinition w net st)) = requests st @ [''https://api.dictionaryapi.dev/api/v2/entries/en/'' @ k]
           \<and> length (requests (snd (fetchDefinition w net st))) = length (requests st) + 1
           \<and> length (requests (snd (fetchDefinition w2 net2 (snd (fetchDefinition w net st)))))
               = length (requests st) + 2"
    if h: "cache st k = None \<and> ((\<exists>err. net = FetchRejected err)
              \<or> (\<exists>s js. net = FetchResolved s js \<and> (s < 200 \<or> 299 < s) \<and> s \<noteq> 404)
              \<or> (\<exists>s err. net = FetchResolved s (JsonRejected err) \<and> 200 \<le> s \<and> s \<le> 299))"
  proof -
    from h have h1: "cache st k = None" by simp
    from h have h2: "lookup_failure net"
      by (auto simp: lookup_failure_def response_ok_def)
    from fetch_failure [OF assms(1) h1 h2] obtain err where r1: "fetchDefinition w net st =
        (Inr (error_data k err), st\<lparr>requests := requests st @ [api_url k]\<rparr>)"
      by blast
    have "cache (st\<lparr>requests := requests st @ [api_url k]\<rparr>) k = None" using h1 by simp
    from fetch_miss_calls [OF assms(2) this]
    have two: "network_calls (snd (fetchDefinition w2 net2 (st\<lparr>requests := requests st @ [api_url k]\<rparr>)))
          = network_calls st + 2"
      by (simp add: network_calls_def)
    show ?thesis unfolding r1 using two
      by (simp add: error_data_def quoted_def network_calls_def api_url_def)
  qed
  show ?thesis using a b c by blast
qed

theorem fetchDefinition_cache_witness:
  "normalizeWord ''Hello!'' = Some ''hello'' \<and> normalizeWord ''hello'' = Some ''hello''
   \<and> cache empty_dict ''hello'' = None
   \<and> fst (fetchDefinition ''Hello!'' (FetchResolved 500 (JsonRejected NonError)) empty_dict) =
        Inr \<lparr> d_word = ''hello'', d_phonetic = None,
              d_definition = ''Unable to fetch meaning for '' @ [CHR 0x27] @ ''hello'' @ [CHR 0x27],
              d_example = None, d_error = Some ''HTTP error 500'' \<rparr>
   \<and> fst (fetchDefinition ''Hello!'' (FetchResolved 404 (JsonRejected NonError)) empty_dict) =
        Inr \<lparr> d_word = ''hello'', d_phonetic = None,
              d_definition = ''Meaning not available for '' @ [CHR 0x27] @ ''hello'' @ [CHR 0x27],
              d_example = None, d_error = Some ''not_found'' \<rparr>
   \<and> length (requests (snd (fetchDefinition ''hello'' (FetchResolved 404 (JsonRejected NonError))
        (snd (fetchDefinition ''Hello!'' (FetchResolved 404 (JsonRejected NonError)) empty_dict))))) = 1
   \<and> length (requests (snd (fetchDefinition ''hello'' (FetchResolved 404 (JsonRejected NonError))
        (snd (fetchDefinition ''Hello!'' (FetchResolved 500 (JsonRejected NonError)) empty_dict))))) = 2"
proof -
  have n1: "normalizeWord ''Hello!'' = Some ''hello''" by code_simp
  have n2: "normalizeWord ''hello'' = Some ''hello''" by code_simp
  have c: "cache empty_dict ''hello'' = None" by (simp add: empty_dict_def)
  have f: "(\<exists>err. FetchResolved 500 (JsonRejected NonError) = FetchRejected err)
      \<or> (\<exists>s js. FetchResolved 500 (JsonRejected NonError) = FetchResolved s js
              \<and> (s < 200 \<or> 299 < s) \<and> s \<noteq> 404)
      \<or> (\<exists>s err. FetchResolved 500 (JsonRejected NonError) = FetchResolved s (JsonRejected err)
              \<and> 200 \<le> s \<and> s \<le> 299)"
    by simp
  have z: "length (requests empty_dict) = 0" by (simp add: empty_dict_def)
  have sn: "show_nat 500 = ''500''" by code_simp
  have e: "\<exists>js. FetchResolved 404 (JsonRejected NonError) = FetchResolved 404 js" by blast
  note A = fetchDefinition_cache [OF n1 n2, of empty_dict "FetchResolved 404 (JsonRejected NonError)"
             "FetchResolved 404 (JsonRejected NonError)", THEN conjunct2, THEN conjunct1,
             THEN mp, OF conjI, OF c e]
  note B = fetchDefinition_cache [OF n1 n2, of empty_dict "FetchResolved 500 (JsonRejected NonError)"
             "FetchResolved 404 (JsonRejected NonError)", THEN conjunct2, THEN conjunct2,
             THEN mp, OF conjI, OF c f]
  have a1: "fst (fetchDefinition ''Hello!'' (FetchResolved 404 (JsonRejected NonError)) empty_dict) =
        Inr \<lparr> d_word = ''hello'', d_phonetic = None,
              d_definition = ''Meaning not available for '' @ [CHR 0x27] @ ''hello'' @ [CHR 0x27],
              d_example = None, d_error = Some ''not_found'' \<rparr>"
    by (rule A [THEN conjunct1])
  from B [THEN conjunct1] obtain msg where
    m: "fst (fetchDefinition ''Hello!'' (FetchResolved 500 (JsonRejected NonError)) empty_dict) =
        Inr \<lparr> d_word = ''hello'', d_phonetic = None,
              d_definition = ''Unable to fetch meaning for '' @ [CHR 0x27] @ ''hello'' @ [CHR 0x27],
              d_example = None, d_error = Some msg \<rparr>"
    by blast
  have "d_error (projr (fst (fetchDefinition ''Hello!'' (FetchResolved 500 (JsonRejected NonError))
          empty_dict))) = Some ''HTTP error 500''"
    using n1 c by (simp add: fetchDefinition_def Let_def response_ok_def error_data_def sn)
  with m have b1: "fst (fetchDefinition ''Hello!'' (FetchResolved 500 (JsonRejected NonError)) empty_dict) =
        Inr \<lparr> d_word = ''hello'', d_phonetic = None,
              d_definition = ''Unable to fetch meaning for '' @ [CHR 0x27] @ ''hello'' @ [CHR 0x27],
              d_example = None, d_error = Some ''HTTP error 500'' \<rparr>"
    by simp
  have a2: "length (requests (snd (fetchDefinition ''hello'' (FetchResolved 404 (JsonRejected NonError))
        (snd (fetchDefinition ''Hello!'' (FetchResolved 404 (JsonRejected NonError)) empty_dict))))) = 1"
    using A [THEN conjunct2, THEN conjunct2, THEN conjunct2, THEN conjunct2] z by simp
  have b2: "length (requests (snd (fetchDefinition ''hello'' (FetchResolved 404 (JsonRejected NonError))
        (snd (fetchDefinition ''Hello!'' (FetchResolved 500 (JsonRejected NonError)) empty_dict))))) = 2"
    using B [THEN conjunct2, THEN conjunct2, THEN conjunct2, THEN conjunct2] z by simp
  show ?thesis using n1 n2 c a1 b1 a2 b2 by simp
qed

text \<open>
  C10. \<open>fetchDefinition\<close> throws exactly on the inputs whose normalization is null (the
  error \<open>Invalid word format\<close>, the state unchanged); on every other input it returns
  an entry, and on a cache miss every failure of the lookup is returned as an entry whose
  word is the canonical key and whose error field is set.
\<close>

theorem fetchDefinition_never_rejects:
  "(normalizeWord w = None \<longrightarrow>
      fetchDefinition w net st = (Inl (ErrorObject ''Invalid word format''), st))
   \<and> (\<forall>k. normalizeWord w = Some k \<longrightarrow>
        (\<exists>d. fst (fetchDefinition w net st) = Inr d)
        \<and> (cache st k = None \<and> lookup_failure net \<longrightarrow>
             (\<exists>d. fst (fetchDefinition w net st) = Inr d \<and> d_word d = k \<and> d_error d \<noteq> None)))
   \<and> ((\<exists>e. fst (fetchDefinition w net st) = Inl e) \<longleftrightarrow> normalizeWord w = None)"
proof -
  have a: "normalizeWord w = None \<longrightarrow>
      fetchDefinition w net st = (Inl (ErrorObject ''Invalid word format''), st)"
    by (simp add: fetchDefinition_def)
  have b: "\<exists>d. fst (fetchDefinition w net st) = Inr d" if "normalizeWord w = Some k" for k
    using that by (rule fetch_returns)
  have c: "\<exists>d. fst (fetchDefinition w net st) = Inr d \<and> d_word d = k \<and> d_error d \<noteq> None"
    if "normalizeWord w = Some k" "cache st k = None \<and> lookup_failure net" for k
  proof -
    from that have "cache st k = None" "lookup_failure net" by simp_all
    from fetch_failure [OF that(1) this] obtain err where
      "fetchDefinition w net st = (Inr (error_data k err), st\<lparr>requests := requests st @ [api_url k]\<rparr>)"
      by blast
    then show ?thesis by (simp add: error_data_def)
  qed
  have d: "(\<exists>e. fst (fetchDefinition w net st) = Inl e) \<longleftrightarrow> normalizeWord w = None"
  proof (cases "normalizeWord w")
    case None
    then show ?thesis using a by simp
  next
    case (Some k)
    then show ?thesis using b [of k] by auto
  qed
  show ?thesis using a b c d by blast
qed

theorem fetchDefinition_never_rejects_witness:
  "normalizeWord ''Hello!'' = Some ''hello'' \<and> normalizeWord ''123'' = None
   \<and> cache empty_dict ''hello'' = None \<and> lookup_failure (FetchRejected (ErrorObject ''Failed to fetch''))
   \<and> (\<exists>d. fst (fetchDefinition ''Hello!'' (FetchRejected (ErrorObject ''Failed to fetch'')) empty_dict) = Inr d
          \<and> d_word d = ''hello'' \<and> d_error d \<noteq> None)
   \<and> fetchDefinition ''123'' (FetchRejected (ErrorObject ''Failed to fetch'')) empty_dict
        = (Inl (ErrorObject ''Invalid word format''), empty_dict)"
proof -
  have n1: "normalizeWord ''Hello!'' = Some ''hello''" by code_simp
  have n2: "normalizeWord ''123'' = None" by code_simp
  have c: "cache empty_dict ''hello'' = None" by (simp add: empty_dict_def)
  have f: "lookup_failure (FetchRejected (ErrorObject ''Failed to fetch''))"
    by (simp add: lookup_failure_def)
  from fetchDefinition_never_rejects [of "''Hello!''" "FetchRejected (ErrorObject ''Failed to fetch'')" empty_dict]
    n1 c f
  have a: "\<exists>d. fst (fetchDefinition ''Hello!'' (FetchRejected (ErrorObject ''Failed to fetch'')) empty_dict) = Inr d
          \<and> d_word d = ''hello'' \<and> d_error d \<noteq> None"
    by blast
  from fetchDefinition_never_rejects [of "''123''" "FetchRejected (ErrorObject ''Failed to fetch'')" empty_dict] n2
  have b: "fetchDefinition ''123'' (FetchRejected (ErrorObject ''Failed to fetch'')) empty_dict
        = (Inl (ErrorObject ''Invalid word format''), empty_dict)"
    by blast
  show ?thesis using n1 n2 c f a b by blast
qed

section \<open>Properties of the hit test\<close>

lemma nearest_loop_cases:
  "(nearest_loop x y (n, m) ws = (n, m) \<and> (\<forall>w \<in> set ws. m \<le> center_distance w x y))
   \<or> (\<exists>i < length ws. nearest_loop x y (n, m) ws = (Some (ws ! i), center_distance (ws ! i) x y)
         \<and> center_distance (ws ! i) x y < m
         \<and> (\<forall>j < i. center_distance (ws ! i) x y < center_distance (ws ! j) x y)
         \<and> (\<forall>w \<in> set ws. center_distance (ws ! i) x y \<le> center_distance w x y))"
proof (induction ws arbitrary: n m rule: rev_induct)
  case Nil
  then show ?case by simp
next
  case (snoc w ws)
  have app: "nearest_loop x y (n, m) (ws @ [w]) =
             (case nearest_loop x y (n, m) ws of (n', m') \<Rightarrow>
                if center_distance w x y < m' then (Some w, center_distance w x y) else (n', m'))"
    for n m
    by (induction ws arbitrary: n m) auto
  from snoc.IH [of n m] show ?case
  proof
    assume a: "nearest_loop x y (n, m) ws = (n, m) \<and> (\<forall>w \<in> set ws. m \<le> center_distance w x y)"
    show ?thesis
    proof (cases "center_distance w x y < m")
      case True
      have "nearest_loop x y (n, m) (ws @ [w]) = (Some w, center_distance w x y)"
        using a True by (simp add: app)
      moreover have "\<forall>j < length ws. center_distance w x y < center_distance (ws ! j) x y"
        using a True by (metis nth_mem order_less_le_trans)
      moreover have "\<forall>w' \<in> set (ws @ [w]). center_distance w x y \<le> center_distance w' x y"
        using a True by auto
      ultimately show ?thesis using True
        by (intro disjI2 exI [of _ "length ws"]) (simp add: nth_append)
    next
      case False
      then show ?thesis using a by (auto simp: app)
    qed
  next
    assume "\<exists>i < length ws. nearest_loop x y (n, m) ws = (Some (ws ! i), center_distance (ws ! i) x y)
         \<and> center_distance (ws ! i) x y < m
         \<and> (\<forall>j < i. center_distance (ws ! i) x y < center_distance (ws ! j) x y)
         \<and> (\<forall>w \<in> set ws. center_distance (ws ! i) x y \<le> center_distance w x y)"
    then obtain i where i: "i < length ws"
      and r: "nearest_loop x y (n, m) ws = (Some (ws ! i), center_distance (ws ! i) x y)"
      and lt: "center_distance (ws ! i) x y < m"
      and first: "\<forall>j < i. center_distance (ws ! i) x y < center_distance (ws ! j) x y"
      and least: "\<forall>w \<in> set ws. center_distance (ws ! i) x y \<le> center_distance w x y"
      by blast
    show ?thesis
    proof (cases "center_distance w x y < center_distance (ws ! i) x y")
      case True
      have "nearest_loop x y (n, m) (ws @ [w]) = (Some w, center_distance w x y)"
        using r True by (simp add: app)
      moreover have "center_distance w x y < m" using True lt by simp
      moreover have "\<forall>j < length ws. center_distance w x y < center_distance (ws ! j) x y"
        using least True by (metis nth_mem order_less_le_trans)
      moreover have "\<forall>w' \<in> set (ws @ [w]). center_distance w x y \<le> center_distance w' x y"
        using least True by auto
      ultimately show ?thesis
        by (intro disjI2 exI [of _ "length ws"]) (simp add: nth_append)
    next
      case False
      have "nearest_loop x y (n, m) (ws @ [w]) = (Some (ws ! i), center_distance (ws ! i) x y)"
        using r False by (simp add: app)
      moreover have "\<forall>w' \<in> set (ws @ [w]). center_distance (ws ! i) x y \<le> center_distance w' x y"
        using least False by auto
      ultimately show ?thesis using i lt first
        by (intro disjI2 exI [of _ i]) (simp add: nth_append)
    qed
  qed
qed

lemma find_first_index:
  assumes "i < length xs" "P (xs ! i)" "\<forall>j < i. \<not> P (xs ! j)"
  shows "find P xs = Some (xs ! i)"
  using assms by (auto simp: find_Some_iff)

lemma contains_point_explicit:
  "contains_point w x y t \<longleftrightarrow>
     rect_x w - t \<le> x \<and> x \<le> rect_x w + width w + t \<and>
     rect_y w - t \<le> y \<and> y \<le> rect_y w + height w + t"
  by (simp add: contains_point_def)

lemma center_distance_explicit:
  "center_distance w x y = sqrt ((x - centerX w)\<^sup>2 + (y - centerY w)\<^sup>2)"
  by (simp add: center_distance_def Let_def power2_eq_square)

text \<open>
  C4. \<open>findWordAtPoint\<close> returns the first rectangle in list order whose bounds,
  expanded by the threshold on all four sides, contain the point. If no rectangle
  contains the point, it returns null exactly when every center is at Euclidean distance
  at least twice the threshold from the point; otherwise it returns the first rectangle
  of the list whose center is at the smallest Euclidean distance from the point, that
  distance being strictly less than twice the threshold.
\<close>

theorem findWordAtPoint_spec:
  "(\<forall>i < length words.
      (rect_x (words ! i) - threshold \<le> x \<and> x \<le> rect_x (words ! i) + width (words ! i) + threshold
       \<and> rect_y (words ! i) - threshold \<le> y
       \<and> y \<le> rect_y (words ! i) + height (words ! i) + threshold)
      \<and> (\<forall>j < i. \<not> (rect_x (words ! j) - threshold \<le> x
                      \<and> x \<le> rect_x (words ! j) + width (words ! j) + threshold
                      \<and> rect_y (words ! j) - threshold \<le> y
                      \<and> y \<le> rect_y (words ! j) + height (words ! j) + threshold)) \<longrightarrow>
      findWordAtPoint words x y threshold = Some (words ! i))
   \<and> ((\<forall>w \<in> set words. \<not> (rect_x w - threshold \<le> x \<and> x \<le> rect_x w + width w + threshold
                           \<and> rect_y w - threshold \<le> y \<and> y \<le> rect_y w + height w + threshold)) \<longrightarrow>
        (findWordAtPoint words x y threshold = None \<longleftrightarrow>
           (\<forall>w \<in> set words. 2 * threshold \<le> sqrt ((x - centerX w)\<^sup>2 + (y - centerY w)\<^sup>2)))
        \<and> (\<forall>r. findWordAtPoint words x y threshold = Some r \<longrightarrow>
              sqrt ((x - centerX r)\<^sup>2 + (y - centerY r)\<^sup>2) < 2 * threshold
              \<and> (\<forall>w \<in> set words. sqrt ((x - centerX r)\<^sup>2 + (y - centerY r)\<^sup>2)
                                   \<le> sqrt ((x - centerX w)\<^sup>2 + (y - centerY w)\<^sup>2))
              \<and> (\<exists>i < length words. r = words ! i
                    \<and> (\<forall>j < i. sqrt ((x - centerX r)\<^sup>2 + (y - centerY r)\<^sup>2)
                                 < sqrt ((x - centerX (words ! j))\<^sup>2 + (y - centerY (words ! j))\<^sup>2)))))"
proof -
  let ?C = "\<lambda>w. contains_point w x y threshold"
  let ?d = "\<lambda>w. center_distance w x y"
  have a: "findWordAtPoint words x y threshold = Some (words ! i)"
    if "i < length words" "?C (words ! i) \<and> (\<forall>j < i. \<not> ?C (words ! j))" for i
  proof -
    from that have "find ?C words = Some (words ! i)"
      by (intro find_first_index) auto
    then show ?thesis by (simp add: findWordAtPoint_def)
  qed
  have eq: "findWordAtPoint words x y threshold =
            fst (nearest_loop x y (None, threshold * 2) words)"
    if "\<forall>w \<in> set words. \<not> ?C w"
  proof -
    from that have "find ?C words = None" by (simp add: find_None_iff)
    then show ?thesis by (simp add: findWordAtPoint_def)
  qed
  have b: "findWordAtPoint words x y threshold = None \<longleftrightarrow>
           (\<forall>w \<in> set words. 2 * threshold \<le> ?d w)"
    if "\<forall>w \<in> set words. \<not> ?C w"
    using nearest_loop_cases [of x y None "threshold * 2" words] unfolding eq [OF that]
    by (auto simp: mult.commute) (metis not_less nth_mem)
  have c: "?d r < 2 * threshold \<and> (\<forall>w \<in> set words. ?d r \<le> ?d w)
           \<and> (\<exists>i < length words. r = words ! i \<and> (\<forall>j < i. ?d r < ?d (words ! j)))"
    if "\<forall>w \<in> set words. \<not> ?C w" "findWordAtPoint words x y threshold = Some r" for r
    using nearest_loop_cases [of x y None "threshold * 2" words] that(2) unfolding eq [OF that(1)]
    by (auto simp: mult.commute)
  show ?thesis
    using a b c unfolding contains_point_explicit center_distance_explicit by blast
qed

theorem findWordAtPoint_spec_witness:
  "findWordAtPoint two_rects 7 5 1 = Some (two_rects ! 0)
   \<and> word (two_rects ! 0) = ''a''
   \<and> findWordAtPoint two_rects 26 5 10 = Some (two_rects ! 1)
   \<and> word (two_rects ! 1) = ''b''
   \<and> sqrt ((26 - centerX (two_rects ! 1))\<^sup>2 + (5 - centerY (two_rects ! 1))\<^sup>2) = 16
   \<and> sqrt ((26 - centerX (two_rects ! 0))\<^sup>2 + (5 - centerY (two_rects ! 0))\<^sup>2) = 21
   \<and> findWordAtPoint two_rects 40 5 10 = None"
proof -
  have sel: "rect_x (two_rects ! 0) = 0" "rect_y (two_rects ! 0) = 0" "width (two_rects ! 0) = 10"
    "height (two_rects ! 0) = 10" "centerX (two_rects ! 0) = 5" "centerY (two_rects ! 0) = 5"
    "rect_x (two_rects ! 1) = 5" "rect_y (two_rects ! 1) = 0" "width (two_rects ! 1) = 10"
    "height (two_rects ! 1) = 10" "centerX (two_rects ! 1) = 10" "centerY (two_rects ! 1) = 5"
    "word (two_rects ! 0) = ''a''" "word (two_rects ! 1) = ''b''"
    by (simp_all add: two_rects_def make_rect_def)
  have len: "length two_rects = 2" by (simp add: two_rects_def)
  have set2: "set two_rects = {two_rects ! 0, two_rects ! 1}" by (simp add: two_rects_def)
  have s16: "sqrt 256 = 16" by (rule real_sqrt_unique) simp_all
  have s21: "sqrt 441 = 21" by (rule real_sqrt_unique) simp_all
  have s30: "sqrt 900 = 30" by (rule real_sqrt_unique) simp_all
  have s35: "sqrt 1225 = 35" by (rule real_sqrt_unique) simp_all
  have d1: "sqrt ((26 - centerX (two_rects ! 1))\<^sup>2 + (5 - centerY (two_rects ! 1))\<^sup>2) = 16"
    unfolding sel by (simp add: s16)
  have d0: "sqrt ((26 - centerX (two_rects ! 0))\<^sup>2 + (5 - centerY (two_rects ! 0))\<^sup>2) = 21"
    unfolding sel by (simp add: s21)
  have e1: "sqrt ((40 - centerX (two_rects ! 1))\<^sup>2 + (5 - centerY (two_rects ! 1))\<^sup>2) = 30"
    unfolding sel by (simp add: s30)
  have e0: "sqrt ((40 - centerX (two_rects ! 0))\<^sup>2 + (5 - centerY (two_rects ! 0))\<^sup>2) = 35"
    unfolding sel by (simp add: s35)
  note T1 = findWordAtPoint_spec [of two_rects 1 7 5, THEN conjunct1, rule_format, of 0]
  have r1: "findWordAtPoint two_rects 7 5 1 = Some (two_rects ! 0)"
    by (rule T1) (simp_all only: len sel, simp_all)
  have out26: "\<forall>w \<in> set two_rects. \<not> (rect_x w - 10 \<le> 26 \<and> 26 \<le> rect_x w + width w + 10
                           \<and> rect_y w - 10 \<le> 5 \<and> 5 \<le> rect_y w + height w + 10)"
    unfolding set2 ball_simps sel by simp
  have out40: "\<forall>w \<in> set two_rects. \<not> (rect_x w - 10 \<le> 40 \<and> 40 \<le> rect_x w + width w + 10
                           \<and> rect_y w - 10 \<le> 5 \<and> 5 \<le> rect_y w + height w + 10)"
    unfolding set2 ball_simps sel by simp
  note T2 = findWordAtPoint_spec [of two_rects 10 26 5, THEN conjunct2, THEN mp, OF out26]
  note T3 = findWordAtPoint_spec [of two_rects 10 40 5, THEN conjunct2, THEN mp, OF out40]
  have "\<not> (\<forall>w \<in> set two_rects. 2 * 10 \<le> sqrt ((26 - centerX w)\<^sup>2 + (5 - centerY w)\<^sup>2))"
    unfolding set2 using d1 by (simp del: One_nat_def)
  with T2 [THEN conjunct1] have "findWordAtPoint two_rects 26 5 10 \<noteq> None" by simp
  then obtain r where r: "findWordAtPoint two_rects 26 5 10 = Some r" by blast
  from T2 [THEN conjunct2, rule_format, OF r]
  have lt: "sqrt ((26 - centerX r)\<^sup>2 + (5 - centerY r)\<^sup>2) < 2 * 10"
    and mem: "\<exists>i < length two_rects. r = two_rects ! i"
    by blast+
  from mem len have "r = two_rects ! 0 \<or> r = two_rects ! 1"
    by (auto simp: less_Suc_eq numeral_2_eq_2)
  with lt d0 have "r = two_rects ! 1" by (auto simp del: One_nat_def)
  with r have r2: "findWordAtPoint two_rects 26 5 10 = Some (two_rects ! 1)" by simp
  have "\<forall>w \<in> set two_rects. 2 * 10 \<le> sqrt ((40 - centerX w)\<^sup>2 + (5 - centerY w)\<^sup>2)"
    unfolding set2 using e0 e1 by (simp del: One_nat_def)
  with T3 [THEN conjunct1] have r3: "findWordAtPoint two_rects 40 5 10 = None" by simp
  show ?thesis using r1 r2 r3 d0 d1 sel(13,14) by (simp del: One_nat_def)
qed

section \<open>Extraction followed by the hit test\<close>

lemma extract_hello_world:
  "extractWordsFromTextContent (Some [hello_world_item T W]) vp =
     [hello_rect T W vp, world_rect T W vp]"
proof -
  have tr: "trim ''hello world'' \<noteq> []" by code_simp
  have tw: "textWords_of ''hello world'' = [''hello'', ''world'']" by code_simp
  have c1: "clean ''hello'' = ''hello''" by code_simp
  have c2: "clean ''world'' = ''world''" by code_simp
  have i1: "indexOf ''hello world'' ''hello'' 0 = Some 0" by code_simp
  have i2: "indexOf ''hello world'' ''world'' (Suc (Suc (Suc (Suc (Suc (Suc 0)))))) = Some 6"
    by code_simp
  have "item_words vp (hello_world_item T W) = [hello_rect T W vp, world_rect T W vp]"
    unfolding item_words_def hello_world_item_def
    by (simp add: tr tw c1 c2 i1 i2 Let_def hello_rect_def world_rect_def)
  then show ?thesis
    by (simp add: extractWordsFromTextContent_def hello_rect_def world_rect_def make_rect_def)
qed


lemma findWordAtPoint_none:
  assumes "\<forall>w \<in> set words. \<not> contains_point w x y threshold \<and>
             2 * threshold \<le> center_distance w x y"
  shows "findWordAtPoint words x y threshold = None"
proof -
  from assms have "find (\<lambda>w. contains_point w x y threshold) words = None"
    by (simp add: find_None_iff)
  moreover have "nearest_loop x y (n, threshold * 2) words = (n, threshold * 2)" for n
    using assms by (induction words) (auto simp: mult.commute)
  ultimately show ?thesis by (simp add: findWordAtPoint_def)
qed

lemma make_rect_sel:
  "rect_x (make_rect s x y w h) = x" "rect_y (make_rect s x y w h) = y"
  "width (make_rect s x y w h) = w" "height (make_rect s x y w h) = h"
  "centerX (make_rect s x y w h) = x + w / 2" "centerY (make_rect s x y w h) = y + h / 2"
  "word (make_rect s x y w h) = s"
  by (simp_all add: make_rect_def)

lemma contains_make_rect:
  "contains_point (make_rect s x y w h) px py t \<longleftrightarrow>
     x - t \<le> px \<and> px \<le> x + w + t \<and> y - t \<le> py \<and> py \<le> y + h + t"
  by (simp add: contains_point_def make_rect_sel)

lemma world_center_in_world:
  assumes "0 \<le> t" "0 \<le> W"
  shows "contains_point (world_rect T W vp) (centerX (world_rect T W vp))
           (centerY (world_rect T W vp)) t"
proof -
  define h where "h = max \<bar>t3 T\<bar> 12"
  have h: "0 < h" by (simp add: h_def)
  show ?thesis
    unfolding world_rect_def contains_make_rect make_rect_sel h_def [symmetric]
    using assms h by simp
qed

lemma world_center_in_hello:
  assumes "0 \<le> t" "0 \<le> W"
  shows "contains_point (hello_rect T W vp) (centerX (world_rect T W vp))
           (centerY (world_rect T W vp)) t \<longleftrightarrow> 7 / 22 * W \<le> t"
proof -
  define h where "h = max \<bar>t3 T\<bar> 12"
  have h: "0 < h" by (simp add: h_def)
  show ?thesis
    unfolding world_rect_def hello_rect_def contains_make_rect make_rect_sel h_def [symmetric]
    using assms h by auto
qed

text \<open>
  C6 (amended). For the single run \<open>hello world\<close> with any transform and width, the
  extraction gives the rectangle of \<open>hello\<close> and then the rectangle of \<open>world\<close>.
  The hit test at the center of the rectangle of \<open>world\<close> returns that rectangle when
  the threshold is not negative and is less than 7/22 of the run width; when the width is
  not negative and the threshold is at least 7/22 of it, the expanded rectangle of
  \<open>hello\<close> contains that center too and, being first in the list, is the one
  returned. A point outside both expanded rectangles and at distance at least twice the
  threshold from both centers gives null.
\<close>

theorem hello_world_round_trip:
  "extractWordsFromTextContent (Some [hello_world_item T W]) vp =
     [hello_rect T W vp, world_rect T W vp]
   \<and> word (world_rect T W vp) = ''world''
   \<and> (0 \<le> t \<and> t < 7 / 22 * W \<longrightarrow>
        findWordAtPoint (extractWordsFromTextContent (Some [hello_world_item T W]) vp)
          (centerX (world_rect T W vp)) (centerY (world_rect T W vp)) t
        = Some (world_rect T W vp))
   \<and> (0 \<le> W \<and> 7 / 22 * W \<le> t \<longrightarrow>
        findWordAtPoint (extractWordsFromTextContent (Some [hello_world_item T W]) vp)
          (centerX (world_rect T W vp)) (centerY (world_rect T W vp)) t
        = Some (hello_rect T W vp))
   \<and> (\<forall>x y.
        (\<forall>w \<in> set (extractWordsFromTextContent (Some [hello_world_item T W]) vp).
            \<not> contains_point w x y t \<and> 2 * t \<le> center_distance w x y) \<longrightarrow>
        findWordAtPoint (extractWordsFromTextContent (Some [hello_world_item T W]) vp) x y t
        = None)"
proof -
  let ?ws = "extractWordsFromTextContent (Some [hello_world_item T W]) vp"
  let ?cx = "centerX (world_rect T W vp)" and ?cy = "centerY (world_rect T W vp)"
  have ws: "?ws = [hello_rect T W vp, world_rect T W vp]" by (rule extract_hello_world)
  have w: "word (world_rect T W vp) = ''world''" by (simp add: world_rect_def make_rect_def)
  have a: "findWordAtPoint ?ws ?cx ?cy t = Some (world_rect T W vp)"
    if "0 \<le> t \<and> t < 7 / 22 * W"
  proof -
    from that have t: "0 \<le> t" and W: "0 \<le> W" by simp_all
    have "\<not> contains_point (hello_rect T W vp) ?cx ?cy t"
      using that world_center_in_hello [OF t W] by simp
    moreover have "contains_point (world_rect T W vp) ?cx ?cy t"
      by (rule world_center_in_world [OF t W])
    ultimately show ?thesis by (simp add: ws findWordAtPoint_def)
  qed
  have b: "findWordAtPoint ?ws ?cx ?cy t = Some (hello_rect T W vp)"
    if "0 \<le> W \<and> 7 / 22 * W \<le> t"
  proof -
    from that have W: "0 \<le> W" and t: "0 \<le> t" by simp_all
    have "contains_point (hello_rect T W vp) ?cx ?cy t"
      using that world_center_in_hello [OF t W] by simp
    then show ?thesis by (simp add: ws findWordAtPoint_def)
  qed
  have c: "findWordAtPoint ?ws x y t = None"
    if "\<forall>w \<in> set ?ws. \<not> contains_point w x y t \<and> 2 * t \<le> center_distance w x y" for x y
    using that by (rule findWordAtPoint_none)
  show ?thesis using ws w a b c by blast
qed

text \<open>
  The claim as stated fails for a run 33 units wide with the default threshold 12: the
  hit test at the center of \<open>world\<close> returns \<open>hello\<close>.
\<close>

theorem hello_world_round_trip_counterexample:
  "map word (extractWordsFromTextContent (Some [hello_world_item small_T 33]) letter_page)
     = [''hello'', ''world'']
   \<and> map_option word
        (findWordAtPoint (extractWordsFromTextContent (Some [hello_world_item small_T 33]) letter_page)
           (centerX (extractWordsFromTextContent (Some [hello_world_item small_T 33]) letter_page ! 1))
           (centerY (extractWordsFromTextContent (Some [hello_world_item small_T 33]) letter_page ! 1))
           12)
     = Some ''hello''"
proof -
  have "contains_point (hello_rect small_T 33 letter_page)
          (centerX (world_rect small_T 33 letter_page))
          (centerY (world_rect small_T 33 letter_page)) 12"
    by (simp add: world_center_in_hello)
  then show ?thesis
    by (simp add: extract_hello_world findWordAtPoint_def hello_rect_def world_rect_def make_rect_def)
qed

theorem hello_world_round_trip_witness:
  "(0::real) \<le> 12 \<and> (12::real) < 7 / 22 * 66
   \<and> map_option word
        (findWordAtPoint (extractWordsFromTextContent (Some [hello_world_item small_T 66]) letter_page)
           (centerX (world_rect small_T 66 letter_page))
           (centerY (world_rect small_T 66 letter_page)) 12)
     = Some ''world''
   \<and> \<not> contains_point (hello_rect small_T 66 letter_page) 300 80 12
   \<and> \<not> contains_point (world_rect small_T 66 letter_page) 300 80 12
   \<and> 2 * 12 \<le> center_distance (hello_rect small_T 66 letter_page) 300 80
   \<and> 2 * 12 \<le> center_distance (world_rect small_T 66 letter_page) 300 80
   \<and> findWordAtPoint (extractWordsFromTextContent (Some [hello_world_item small_T 66]) letter_page)
        300 80 12 = None"
proof -
  note t = hello_world_round_trip [of small_T 66 letter_page 12]
  have h: "(0::real) \<le> 12 \<and> (12::real) < 7 / 22 * 66" by simp
  from t h have a: "findWordAtPoint
      (extractWordsFromTextContent (Some [hello_world_item small_T 66]) letter_page)
      (centerX (world_rect small_T 66 letter_page))
      (centerY (world_rect small_T 66 letter_page)) 12 = Some (world_rect small_T 66 letter_page)"
    by blast
  from t have ws: "extractWordsFromTextContent (Some [hello_world_item small_T 66]) letter_page
      = [hello_rect small_T 66 letter_page, world_rect small_T 66 letter_page]"
    by blast
  have d1: "24 \<le> center_distance (hello_rect small_T 66 letter_page) 300 80"
    by (simp add: center_distance_def hello_rect_def make_rect_def small_T_def letter_page_def
          real_le_rsqrt)
  have d2: "24 \<le> center_distance (world_rect small_T 66 letter_page) 300 80"
    by (simp add: center_distance_def world_rect_def make_rect_def small_T_def letter_page_def
          real_le_rsqrt)
  have far: "\<forall>w \<in> set (extractWordsFromTextContent (Some [hello_world_item small_T 66]) letter_page).
          \<not> contains_point w 300 80 12 \<and> 2 * 12 \<le> center_distance w 300 80"
    unfolding ws using d1 d2
    by (simp add: contains_point_def hello_rect_def world_rect_def make_rect_def
          small_T_def letter_page_def)
  from t far have n: "findWordAtPoint
      (extractWordsFromTextContent (Some [hello_world_item small_T 66]) letter_page) 300 80 12 = None"
    by blast
  have w: "word (world_rect small_T 66 letter_page) = ''world''"
    by (simp add: world_rect_def make_rect_def)
  from far have far': "\<not> contains_point (hello_rect small_T 66 letter_page) 300 80 12
      \<and> \<not> contains_point (world_rect small_T 66 letter_page) 300 80 12
      \<and> 2 * 12 \<le> center_distance (hello_rect small_T 66 letter_page) 300 80
      \<and> 2 * 12 \<le> center_distance (world_rect small_T 66 letter_page) 300 80"
    unfolding ws by simp
  show ?thesis using h far' n by (simp add: a w)
qed

section \<open>Properties of the extraction\<close>
















section \<open>Properties of the viewer\<close>

lemma cleanup_result:
  "cleanup v =
     (None, v\<lparr>renderTaskRef := None, pdfPageRef := None,
              calls := calls v
                @ (case renderTaskRef v of None \<Rightarrow> [] | Some t \<Rightarrow> [Cancel t])
                @ (case pdfPageRef v of None \<Rightarrow> [] | Some p \<Rightarrow> [Cleanup p])\<rparr>)"
  by (cases "renderTaskRef v"; cases "pdfPageRef v")
     (simp_all add: cleanup_def then_do_def try_ignore_def assign_def call_cancel_def
        call_cleanup_def)

lemma cleanupDoc_result:
  "cleanupDoc v =
     (None, v\<lparr>renderTaskRef := None, pdfPageRef := None, pdfDocRef := None,
              calls := calls v
                @ (case renderTaskRef v of None \<Rightarrow> [] | Some t \<Rightarrow> [Cancel t])
                @ (case pdfPageRef v of None \<Rightarrow> [] | Some p \<Rightarrow> [Cleanup p])
                @ (case pdfDocRef v of None \<Rightarrow> [] | Some d \<Rightarrow> [Destroy d])\<rparr>)"
  by (cases "pdfDocRef v")
     (simp_all add: cleanupDoc_def then_do_def cleanup_result try_ignore_def assign_def
        call_destroy_def)

lemma cleanupDoc_no_handles:
  "renderTaskRef w = None \<Longrightarrow> pdfPageRef w = None \<Longrightarrow> pdfDocRef w = None \<Longrightarrow>
   cleanupDoc w = (None, w)"
  by (simp add: cleanupDoc_def cleanup_def then_do_def)

text \<open>
  C9. \<open>cleanupDoc\<close> never throws, whatever the handles do when they are cancelled,
  cleaned up or destroyed. It calls \<open>cancel\<close> on the render task, \<open>cleanup\<close> on the
  page and \<open>destroy\<close> on the document, each if present and in this order, and leaves
  the three references null; a second call right after it makes no call, changes nothing
  and does not throw.
\<close>

theorem cleanupDoc_idempotent:
  "fst (cleanupDoc v) = None
   \<and> renderTaskRef (snd (cleanupDoc v)) = None
   \<and> pdfPageRef (snd (cleanupDoc v)) = None
   \<and> pdfDocRef (snd (cleanupDoc v)) = None
   \<and> calls (snd (cleanupDoc v)) =
       calls v
       @ (case renderTaskRef v of None \<Rightarrow> [] | Some t \<Rightarrow> [Cancel t])
       @ (case pdfPageRef v of None \<Rightarrow> [] | Some p \<Rightarrow> [Cleanup p])
       @ (case pdfDocRef v of None \<Rightarrow> [] | Some d \<Rightarrow> [Destroy d])
   \<and> cleanupDoc (snd (cleanupDoc v)) = (None, snd (cleanupDoc v))"
proof -
  let ?v' = "snd (cleanupDoc v)"
  have refs: "renderTaskRef ?v' = None" "pdfPageRef ?v' = None" "pdfDocRef ?v' = None"
    by (simp_all add: cleanupDoc_result)
  have "cleanupDoc ?v' = (None, ?v')"
    using refs by (rule cleanupDoc_no_handles)
  then show ?thesis by (simp add: cleanupDoc_result)
qed













lemma same_gen_sym: "same_gen a b \<Longrightarrow> same_gen b a"
  by (simp add: same_gen_def)

























lemma handlePageChange_blocked:
  "seen_renderingPage v \<Longrightarrow> handlePageChange_begin n v = (None, v)"
  by (simp add: handlePageChange_begin_def)

lemma handlePageChange_out_of_range:
  "n < 1 \<or> seen_numPages v < n \<or> n = seen_currentPage v \<Longrightarrow>
   handlePageChange_begin n v = (None, v)"
  by (auto simp: handlePageChange_begin_def)

lemma handleResize_queues:
  "seen_rendered v \<Longrightarrow> seen_renderingPage v \<Longrightarrow>
   handleResize_fire v = (None, v\<lparr>needsRerender := True\<rparr>)"
  by (simp add: handleResize_fire_def)

text \<open>
  C7. The guard of \<open>handlePageChange\<close> reads \<open>renderingPage\<close> from the closure
  of the last time React rendered the component, so a navigation is let through while a
  render is in flight that React has not rendered yet. Page 1 of a document of three
  pages is shown. The debounce timer of a resize fires and calls \<open>renderPage(1)\<close>:
  this render, of token 2, waits for its page, and \<open>setRenderingPage(true)\<close> has run.
  The user presses Next before React renders the component again: \<open>handlePageChange(2)\<close>
  closes the popup and calls \<open>renderPage(2)\<close>, which takes token 3 and fetches page
  2, so two renders are in flight; when they settle the current page is 2. Had React
  rendered the component before, the same call would return at the guard and change
  nothing.
\<close>

theorem navigation_with_render_in_flight:
  "frames (run resize_render (initial_app True True)) =
     [(\<lparr> localToken = 2, pageNum = 1, pc = AtGetPage \<rparr>, FromElsewhere)]
   \<and> renderingPage (view (run resize_render (initial_app True True)))
   \<and> \<not> seen_renderingPage (view (run resize_render (initial_app True True)))
   \<and> fst (handlePageChange_begin 2 (view (run resize_render (initial_app True True)))) =
       Some (Suspended \<lparr> localToken = 3, pageNum = 2, pc = AtGetPage \<rparr>)
   \<and> calls (snd (handlePageChange_begin 2 (view (run resize_render (initial_app True True))))) =
       calls (view (run resize_render (initial_app True True))) @ [ClosePopup, GetPage 2]
   \<and> renderTokenRef (snd (handlePageChange_begin 2
         (view (run resize_render (initial_app True True))))) = 3
   \<and> frames (run two_in_flight (initial_app True True)) =
       [(\<lparr> localToken = 2, pageNum = 1, pc = AtGetPage \<rparr>, FromElsewhere),
        (\<lparr> localToken = 3, pageNum = 2, pc = AtGetPage \<rparr>, FromNavigation 2)]
   \<and> currentPage (view (run two_in_flight (initial_app True True))) = 1
   \<and> currentPage (view (run
         (two_in_flight @
          [Resume 0 (GotPage (Fulfilled page1)), Resume 0 (GotPage (Fulfilled page2)),
           Resume 0 (RasterDone (Fulfilled ())), Commit])
         (initial_app True True))) = 2
   \<and> handlePageChange_begin 2 (view (run (resize_render @ [Commit]) (initial_app True True))) =
       (None, view (run (resize_render @ [Commit]) (initial_app True True)))"
proof -
  have "seen_renderingPage (view (run (resize_render @ [Commit]) (initial_app True True)))"
    by code_simp
  then have "handlePageChange_begin 2 (view (run (resize_render @ [Commit]) (initial_app True True))) =
       (None, view (run (resize_render @ [Commit]) (initial_app True True)))"
    by (rule handlePageChange_blocked)
  moreover have "frames (run resize_render (initial_app True True)) =
     [(\<lparr> localToken = 2, pageNum = 1, pc = AtGetPage \<rparr>, FromElsewhere)]"
    by code_simp
  moreover have "renderingPage (view (run resize_render (initial_app True True)))"
    by code_simp
  moreover have "\<not> seen_renderingPage (view (run resize_render (initial_app True True)))"
    by code_simp
  moreover have "fst (handlePageChange_begin 2 (view (run resize_render (initial_app True True)))) =
       Some (Suspended \<lparr> localToken = 3, pageNum = 2, pc = AtGetPage \<rparr>)"
    by code_simp
  moreover have "calls (snd (handlePageChange_begin 2 (view (run resize_render (initial_app True True))))) =
       calls (view (run resize_render (initial_app True True))) @ [ClosePopup, GetPage 2]"
    by code_simp
  moreover have "renderTokenRef (snd (handlePageChange_begin 2
         (view (run resize_render (initial_app True True))))) = 3"
    by code_simp
  moreover have "frames (run two_in_flight (initial_app True True)) =
       [(\<lparr> localToken = 2, pageNum = 1, pc = AtGetPage \<rparr>, FromElsewhere),
        (\<lparr> localToken = 3, pageNum = 2, pc = AtGetPage \<rparr>, FromNavigation 2)]"
    by code_simp
  moreover have "currentPage (view (run two_in_flight (initial_app True True))) = 1"
    by code_simp
  moreover have "currentPage (view (run
         (two_in_flight @
          [Resume 0 (GotPage (Fulfilled page1)), Resume 0 (GotPage (Fulfilled page2)),
           Resume 0 (RasterDone (Fulfilled ())), Commit])
         (initial_app True True))) = 2"
    by code_simp
  ultimately show ?thesis by (intro conjI)
qed

text \<open>
  C8. At the end of a render the \<open>finally\<close> block queues \<open>renderPage(pageNum)\<close>, the
  page of the render that ends, where the resize handler calls
  \<open>renderPage(currentPage)\<close>. Page 1 of a document of three pages is shown. The user
  goes to page 2 and React renders; the debounce timer of a resize fires while the page
  is fetched: it sets the flag and starts no render. The page fetch fails: the render
  sets the error, clears \<open>renderingPage\<close> and the flag and queues one re-render, of page
  2; \<open>handlePageChange\<close> leaves the current page at 1. The queued re-render then
  fetches page 2 while the current page is 1. When the fetch and the raster task
  succeed instead, the current page is 2 and the one queued re-render is of page 2.
\<close>

theorem rerender_after_failed_navigation:
  "frames (run resize_pending (initial_app True True)) =
     [(\<lparr> localToken = 2, pageNum = 2, pc = AtGetPage \<rparr>, FromNavigation 2)]
   \<and> needsRerender (view (run resize_pending (initial_app True True)))
   \<and> timers (view (run resize_pending (initial_app True True))) = []
   \<and> currentPage (view (run failed_navigation (initial_app True True))) = 1
   \<and> seen_currentPage (view (run failed_navigation (initial_app True True))) = 1
   \<and> error (view (run failed_navigation (initial_app True True))) =
       Some ''Page 2 could not be read''
   \<and> \<not> renderingPage (view (run failed_navigation (initial_app True True)))
   \<and> \<not> needsRerender (view (run failed_navigation (initial_app True True)))
   \<and> frames (run failed_navigation (initial_app True True)) = []
   \<and> timers (view (run failed_navigation (initial_app True True))) = [2]
   \<and> frames (run (failed_navigation @ [RerenderTimeout]) (initial_app True True)) =
       [(\<lparr> localToken = 3, pageNum = 2, pc = AtGetPage \<rparr>, FromElsewhere)]
   \<and> calls (view (run (failed_navigation @ [RerenderTimeout]) (initial_app True True))) =
       calls (view (run failed_navigation (initial_app True True))) @ [GetPage 2]
   \<and> currentPage (view (run (failed_navigation @ [RerenderTimeout]) (initial_app True True))) = 1
   \<and> timers (view (run (failed_navigation @ [RerenderTimeout]) (initial_app True True))) = []
   \<and> currentPage (view (run resized_navigation (initial_app True True))) = 2
   \<and> timers (view (run resized_navigation (initial_app True True))) = [2]"
proof -
  have "frames (run resize_pending (initial_app True True)) =
     [(\<lparr> localToken = 2, pageNum = 2, pc = AtGetPage \<rparr>, FromNavigation 2)]"
    by code_simp
  moreover have "needsRerender (view (run resize_pending (initial_app True True)))"
    by code_simp
  moreover have "timers (view (run resize_pending (initial_app True True))) = []"
    by code_simp
  moreover have "currentPage (view (run failed_navigation (initial_app True True))) = 1"
    by code_simp
  moreover have "seen_currentPage (view (run failed_navigation (initial_app True True))) = 1"
    by code_simp
  moreover have "error (view (run failed_navigation (initial_app True True))) =
       Some ''Page 2 could not be read''"
    by code_simp
  moreover have "\<not> renderingPage (view (run failed_navigation (initial_app True True)))"
    by code_simp
  moreover have "\<not> needsRerender (view (run failed_navigation (initial_app True True)))"
    by code_simp
  moreover have "frames (run failed_navigation (initial_app True True)) = []"
    by code_simp
  moreover have "timers (view (run failed_navigation (initial_app True True))) = [2]"
    by code_simp
  moreover have "frames (run (failed_navigation @ [RerenderTimeout]) (initial_app True True)) =
       [(\<lparr> localToken = 3, pageNum = 2, pc = AtGetPage \<rparr>, FromElsewhere)]"
    by code_simp
  moreover have "calls (view (run (failed_navigation @ [RerenderTimeout]) (initial_app True True))) =
       calls (view (run failed_navigation (initial_app True True))) @ [GetPage 2]"
    by code_simp
  moreover have "currentPage (view (run (failed_navigation @ [RerenderTimeout]) (initial_app True True))) = 1"
    by code_simp
  moreover have "timers (view (run (failed_navigation @ [RerenderTimeout]) (initial_app True True))) = []"
    by code_simp
  moreover have "currentPage (view (run resized_navigation (initial_app True True))) = 2"
    by code_simp
  moreover have "timers (view (run resized_navigation (initial_app True True))) = [2]"
    by code_simp
  ultimately show ?thesis by (intro conjI)
qed

end
